theory Spec2Isabelle
  imports Complex_Main "HOL-Library.AList" "HOL-Library.Product_Lexorder"
begin

section \<open>Data model\<close>

text \<open>
  The notebook \<^verbatim>\<open>life_expectancy.ipynb\<close> works on pandas data frames. A numeric entry is
  a float: a missing value (\<^verbatim>\<open>NaN\<close>), an infinity, or a finite number. Finite numbers are
  taken as rationals, so rounding and overflow are left out; everything else (missing
  values, infinities from a division by zero, strings in a numeric place) is kept. An entry
  of an object column is a string; a missing entry there is \<^verbatim>\<open>NaN\<close> as well.
\<close>

datatype float64 = NaN | NegInf | Fin rat | PosInf

datatype cell = Number float64 | Str string

text \<open>Python exceptions the modelled code can raise.\<close>

datatype error = KeyError string | TypeError

text \<open>
  A data frame is the ordered list of its columns, each a name with one entry per row.
  A frame built by pandas has distinct column names and columns of one length.
\<close>

type_synonym frame = "(string \<times> cell list) list"

definition columns :: "frame \<Rightarrow> string list" where
  "columns d = map fst d"

definition nrows :: "frame \<Rightarrow> nat" where
  "nrows d = (case d of [] \<Rightarrow> 0 | (c, xs) # rest \<Rightarrow> length xs)"

definition wf_frame :: "frame \<Rightarrow> bool" where
  "wf_frame d \<longleftrightarrow> distinct (map fst d) \<and> list_all (\<lambda>(c, xs). length xs = nrows d) d"

text \<open>\<^verbatim>\<open>data[col]\<close>: the column, or \<^verbatim>\<open>KeyError\<close>.\<close>

definition getitem :: "frame \<Rightarrow> string \<Rightarrow> error + cell list" where
  "getitem d c = (case map_of d c of None \<Rightarrow> Inl (KeyError c) | Some xs \<Rightarrow> Inr xs)"

text \<open>\<^verbatim>\<open>data[col] = values\<close>: replaces the column in place, or appends a new last column.\<close>

definition setitem :: "frame \<Rightarrow> string \<Rightarrow> cell list \<Rightarrow> frame" where
  "setitem d c xs = AList.update c xs d"

text \<open>\<^verbatim>\<open>data.drop(col, axis=1)\<close>: \<^verbatim>\<open>KeyError\<close> when there is no such column.\<close>

definition drop_column :: "frame \<Rightarrow> string \<Rightarrow> error + frame" where
  "drop_column d c =
     (if c \<in> set (columns d) then Inr (filter (\<lambda>p. fst p \<noteq> c) d) else Inl (KeyError c))"

text \<open>The row \<open>i\<close> of a frame, as \<^verbatim>\<open>apply(..., axis=1)\<close> hands it to its function.\<close>

definition row_at :: "frame \<Rightarrow> nat \<Rightarrow> (string \<rightharpoonup> cell)" where
  "row_at d i = (\<lambda>c. map_option (\<lambda>xs. xs ! i) (map_of d c))"

text \<open>\<^verbatim>\<open>pd.isna\<close>.\<close>

fun isna :: "cell \<Rightarrow> bool" where
  "isna (Number NaN) = True"
| "isna _ = False"

text \<open>Running a list of computations in order; the first exception ends the run.\<close>

fun collect :: "(error + 'a) list \<Rightarrow> error + 'a list" where
  "collect [] = Inr []"
| "collect (r # rs) =
     (case r of
        Inl e \<Rightarrow> Inl e
      | Inr x \<Rightarrow> (case collect rs of Inl e \<Rightarrow> Inl e | Inr xs \<Rightarrow> Inr (x # xs)))"

section \<open>Float arithmetic and the aggregates of pandas\<close>

text \<open>IEEE addition and division on the idealised floats; neither raises.\<close>

fun fadd :: "float64 \<Rightarrow> float64 \<Rightarrow> float64" where
  "fadd NaN y = NaN"
| "fadd x NaN = NaN"
| "fadd (Fin a) (Fin b) = Fin (a + b)"
| "fadd (Fin a) y = y"
| "fadd x (Fin b) = x"
| "fadd PosInf PosInf = PosInf"
| "fadd NegInf NegInf = NegInf"
| "fadd PosInf NegInf = NaN"
| "fadd NegInf PosInf = NaN"

fun fdiv :: "float64 \<Rightarrow> float64 \<Rightarrow> float64" where
  "fdiv NaN y = NaN"
| "fdiv x NaN = NaN"
| "fdiv (Fin a) (Fin b) =
     (if b = 0 then (if a = 0 then NaN else if 0 < a then PosInf else NegInf)
      else Fin (a / b))"
| "fdiv (Fin a) y = Fin 0"
| "fdiv PosInf (Fin b) = (if b < 0 then NegInf else PosInf)"
| "fdiv NegInf (Fin b) = (if b < 0 then PosInf else NegInf)"
| "fdiv x y = NaN"

text \<open>An entry read as a float: a string in a numeric operation is a \<^verbatim>\<open>TypeError\<close>.\<close>

fun as_float :: "cell \<Rightarrow> error + float64" where
  "as_float (Number x) = Inr x"
| "as_float (Str s) = Inl TypeError"

definition fsum :: "float64 list \<Rightarrow> float64" where
  "fsum xs = foldl fadd (Fin 0) xs"

text \<open>\<^verbatim>\<open>mean()\<close> skips missing values; the mean of nothing is \<^verbatim>\<open>NaN\<close>.\<close>

definition fmean :: "float64 list \<Rightarrow> float64" where
  "fmean xs =
     (let vs = filter (\<lambda>x. x \<noteq> NaN) xs
      in if vs = [] then NaN else fdiv (fsum vs) (Fin (of_nat (length vs))))"

fun num_key :: "float64 \<Rightarrow> nat \<times> rat" where
  "num_key NegInf = (0, 0)"
| "num_key (Fin a) = (1, a)"
| "num_key PosInf = (2, 0)"
| "num_key NaN = (3, 0)"

text \<open>
  \<^verbatim>\<open>median()\<close> skips missing values: the middle of the sorted values, the mean of the two
  middle ones when their number is even, \<^verbatim>\<open>NaN\<close> when there is none.
\<close>

definition fmedian :: "float64 list \<Rightarrow> float64" where
  "fmedian xs =
     (let vs = sort_key num_key (filter (\<lambda>x. x \<noteq> NaN) xs); n = length vs
      in if n = 0 then NaN
         else if odd n then vs ! (n div 2)
         else fdiv (fadd (vs ! (n div 2 - 1)) (vs ! (n div 2))) (Fin 2))"

text \<open>\<^verbatim>\<open>data[col].median()\<close>.\<close>

definition median :: "cell list \<Rightarrow> error + cell" where
  "median xs =
     (case collect (map as_float xs) of
        Inl e \<Rightarrow> Inl e
      | Inr vs \<Rightarrow> Inr (Number (fmedian vs)))"

text \<open>
  \<^verbatim>\<open>data.groupby('Country')[col].mean()\<close>, given the two columns: a series indexed by the
  country values that occur (rows with a missing country are dropped), holding the mean of
  the column over the rows of that country. pandas sorts the index; the series is only
  read by key here, so the keys are kept in order of first occurrence.
\<close>

definition groupby_mean :: "cell list \<Rightarrow> cell list \<Rightarrow> error + (cell \<times> cell) list" where
  "groupby_mean ks xs =
     (case collect (map as_float xs) of
        Inl e \<Rightarrow> Inl e
      | Inr vs \<Rightarrow>
          Inr (map (\<lambda>k. (k, Number (fmean (map snd (filter (\<lambda>p. fst p = k) (zip ks vs))))))
                 (remdups (filter (\<lambda>k. \<not> isna k) ks))))"

text \<open>\<^verbatim>\<open>series.get(key, default)\<close>.\<close>

definition series_get :: "(cell \<times> cell) list \<Rightarrow> cell \<Rightarrow> cell \<Rightarrow> cell" where
  "series_get s k dflt = (case map_of s k of None \<Rightarrow> dflt | Some v \<Rightarrow> v)"

section \<open>DataPreprocessor\<close>

text \<open>The two dictionaries of the object; a Python dictionary keeps insertion order.\<close>

record preprocessor =
  means_by_country :: "(string \<times> (cell \<times> cell) list) list"
  global_medians :: "(string \<times> cell) list"

text \<open>\<^verbatim>\<open>__init__\<close>.\<close>

definition DataPreprocessor :: preprocessor where
  "DataPreprocessor = \<lparr>means_by_country = [], global_medians = []\<rparr>"

text \<open>\<^verbatim>\<open>data.columns[data.isna().any()].tolist()\<close>.\<close>

definition cols_with_na :: "frame \<Rightarrow> string list" where
  "cols_with_na d = map fst (filter (\<lambda>p. list_ex isna (snd p)) d)"

text \<open>
  One turn of the loop of \<^verbatim>\<open>fit\<close>. The object is updated in place, so an exception leaves
  it as it is at that point: the result is the exception, if any, and the object.
\<close>

definition fit_col :: "frame \<Rightarrow> string \<Rightarrow> preprocessor \<Rightarrow> error option \<times> preprocessor" where
  "fit_col d col st =
     (case getitem d ''Country'' of
        Inl e \<Rightarrow> (Some e, st)
      | Inr ks \<Rightarrow>
          (case getitem d col of
             Inl e \<Rightarrow> (Some e, st)
           | Inr xs \<Rightarrow>
               (case groupby_mean ks xs of
                  Inl e \<Rightarrow> (Some e, st)
                | Inr m \<Rightarrow>
                    (let st1 = st\<lparr>means_by_country := AList.update col m (means_by_country st)\<rparr>
                     in case median xs of
                          Inl e \<Rightarrow> (Some e, st1)
                        | Inr med \<Rightarrow>
                            (None, st1\<lparr>global_medians :=
                                          AList.update col med (global_medians st1)\<rparr>)))))"

fun fit_cols :: "frame \<Rightarrow> string list \<Rightarrow> preprocessor \<Rightarrow> error option \<times> preprocessor" where
  "fit_cols d [] st = (None, st)"
| "fit_cols d (col # cols) st =
     (case fit_col d col st of
        (Some e, st1) \<Rightarrow> (Some e, st1)
      | (None, st1) \<Rightarrow> fit_cols d cols st1)"

definition fit :: "frame \<Rightarrow> preprocessor \<Rightarrow> error option \<times> preprocessor" where
  "fit d st = fit_cols d (cols_with_na d) st"

text \<open>
  The function applied to each row in \<^verbatim>\<open>transform\<close>:
  \<^verbatim>\<open>self.means_by_country[col].get(row['Country'], self.global_medians[col])
    if pd.isna(row[col]) else row[col]\<close>.
  The arguments of \<^verbatim>\<open>get\<close> are evaluated only for a missing entry, the country first.
\<close>

definition fill_value ::
  "(cell \<times> cell) list \<Rightarrow> (string \<times> cell) list \<Rightarrow> string \<Rightarrow> (string \<rightharpoonup> cell) \<Rightarrow> error + cell"
where
  "fill_value means medians col row =
     (case row col of
        None \<Rightarrow> Inl (KeyError col)
      | Some v \<Rightarrow>
          if isna v then
            (case row ''Country'' of
               None \<Rightarrow> Inl (KeyError ''Country'')
             | Some k \<Rightarrow>
                 (case map_of medians col of
                    None \<Rightarrow> Inl (KeyError col)
                  | Some med \<Rightarrow> Inr (series_get means k med)))
          else Inr v)"

text \<open>
  One turn of the loop of \<^verbatim>\<open>transform\<close>: the rows are visited in order and the column is
  assigned when all are done. (For a frame with no row pandas takes a path of its own;
  here no row is visited then. The theorems below that show a call of \<^verbatim>\<open>transform\<close> to
  return are about a frame with a row, or about a frame on which an earlier call has
  returned.)
\<close>

definition impute_col ::
  "(cell \<times> cell) list \<Rightarrow> (string \<times> cell) list \<Rightarrow> string \<Rightarrow> frame \<Rightarrow> error + frame"
where
  "impute_col means medians col d =
     (case collect (map (\<lambda>i. fill_value means medians col (row_at d i)) [0..<nrows d]) of
        Inl e \<Rightarrow> Inl e
      | Inr vs \<Rightarrow> Inr (setitem d col vs))"

fun impute ::
  "(string \<times> (cell \<times> cell) list) list \<Rightarrow> (string \<times> cell) list \<Rightarrow> frame \<Rightarrow> error + frame"
where
  "impute [] medians d = Inr d"
| "impute ((col, means) # rest) medians d =
     (case impute_col means medians col d of
        Inl e \<Rightarrow> Inl e
      | Inr d1 \<Rightarrow> impute rest medians d1)"

text \<open>\<^verbatim>\<open>.map({'Developing': 0, 'Developed': 1})\<close>: an entry that is no key becomes \<^verbatim>\<open>NaN\<close>.\<close>

definition status_codes :: "(cell \<times> cell) list" where
  "status_codes = [(Str ''Developing'', Number (Fin 0)), (Str ''Developed'', Number (Fin 1))]"

definition encode_status :: "cell \<Rightarrow> cell" where
  "encode_status v = (case map_of status_codes v of None \<Rightarrow> Number NaN | Some code \<Rightarrow> code)"

text \<open>
  \<^verbatim>\<open>transform\<close> works on a copy of its argument. Here it is as a function of the object
  and the frame: the result of a call.
\<close>

definition transform :: "preprocessor \<Rightarrow> frame \<Rightarrow> error + frame" where
  "transform st d =
     (case impute (means_by_country st) (global_medians st) d of
        Inl e \<Rightarrow> Inl e
      | Inr d1 \<Rightarrow>
          (case getitem d1 ''Status'' of
             Inl e \<Rightarrow> Inl e
           | Inr xs \<Rightarrow> Inr (setitem d1 ''Status'' (map encode_status xs))))"

text \<open>
  The same method as a call on the object, to say what a call does to the object: the
  object goes through every step, each read of \<^verbatim>\<open>self.means_by_country\<close> and of
  \<^verbatim>\<open>self.global_medians\<close> is a read of the object as it is at that step, and the call
  gives back its result together with the object as it leaves it. The loop runs over the
  keys that \<^verbatim>\<open>self.means_by_country\<close> has when it starts. First the function applied to a
  row, then the rows of one column, the columns, and the method.
\<close>

definition fill_value_call ::
  "string \<Rightarrow> (string \<rightharpoonup> cell) \<Rightarrow> preprocessor \<Rightarrow> (error + cell) \<times> preprocessor"
where
  "fill_value_call col row self =
     (case row col of
        None \<Rightarrow> (Inl (KeyError col), self)
      | Some v \<Rightarrow>
          if isna v then
            (case map_of (means_by_country self) col of
               None \<Rightarrow> (Inl (KeyError col), self)
             | Some means \<Rightarrow>
                 (case row ''Country'' of
                    None \<Rightarrow> (Inl (KeyError ''Country''), self)
                  | Some k \<Rightarrow>
                      (case map_of (global_medians self) col of
                         None \<Rightarrow> (Inl (KeyError col), self)
                       | Some med \<Rightarrow> (Inr (series_get means k med), self))))
          else (Inr v, self))"

fun rows_call ::
  "string \<Rightarrow> (string \<rightharpoonup> cell) list \<Rightarrow> preprocessor \<Rightarrow> (error + cell list) \<times> preprocessor"
where
  "rows_call col [] self = (Inr [], self)"
| "rows_call col (row # rows) self =
     (case fill_value_call col row self of
        (Inl e, self1) \<Rightarrow> (Inl e, self1)
      | (Inr v, self1) \<Rightarrow>
          (case rows_call col rows self1 of
             (Inl e, self2) \<Rightarrow> (Inl e, self2)
           | (Inr vs, self2) \<Rightarrow> (Inr (v # vs), self2)))"

definition impute_col_call ::
  "string \<Rightarrow> frame \<Rightarrow> preprocessor \<Rightarrow> (error + frame) \<times> preprocessor"
where
  "impute_col_call col d self =
     (case rows_call col (map (row_at d) [0..<nrows d]) self of
        (Inl e, self1) \<Rightarrow> (Inl e, self1)
      | (Inr vs, self1) \<Rightarrow> (Inr (setitem d col vs), self1))"

fun impute_call ::
  "string list \<Rightarrow> frame \<Rightarrow> preprocessor \<Rightarrow> (error + frame) \<times> preprocessor"
where
  "impute_call [] d self = (Inr d, self)"
| "impute_call (col # cols) d self =
     (case impute_col_call col d self of
        (Inl e, self1) \<Rightarrow> (Inl e, self1)
      | (Inr d1, self1) \<Rightarrow> impute_call cols d1 self1)"

definition transform_call :: "frame \<Rightarrow> preprocessor \<Rightarrow> (error + frame) \<times> preprocessor" where
  "transform_call d self =
     (case impute_call (map fst (means_by_country self)) d self of
        (Inl e, self1) \<Rightarrow> (Inl e, self1)
      | (Inr d1, self1) \<Rightarrow>
          (case getitem d1 ''Status'' of
             Inl e \<Rightarrow> (Inl e, self1)
           | Inr xs \<Rightarrow> (Inr (setitem d1 ''Status'' (map encode_status xs)), self1)))"

text \<open>\<^verbatim>\<open>fit_transform\<close>: \<^verbatim>\<open>self.fit(data)\<close>, then \<^verbatim>\<open>return self.transform(data)\<close>.\<close>

definition fit_transform :: "frame \<Rightarrow> preprocessor \<Rightarrow> (error + frame) \<times> preprocessor" where
  "fit_transform d self =
     (case fit d self of
        (Some e, self1) \<Rightarrow> (Inl e, self1)
      | (None, self1) \<Rightarrow> transform_call d self1)"

section \<open>Feature synthesis\<close>

text \<open>\<^verbatim>\<open>.replace(0, np.nan)\<close> on one entry.\<close>

definition replace_zero :: "cell \<Rightarrow> cell" where
  "replace_zero v = (if v = Number (Fin 0) then Number NaN else v)"

text \<open>Division of two entries: a string operand is a \<^verbatim>\<open>TypeError\<close>.\<close>

definition truediv :: "cell \<Rightarrow> cell \<Rightarrow> error + cell" where
  "truediv x y =
     (case as_float x of
        Inl e \<Rightarrow> Inl e
      | Inr a \<Rightarrow> (case as_float y of Inl e \<Rightarrow> Inl e | Inr b \<Rightarrow> Inr (Number (fdiv a b))))"

text \<open>\<^verbatim>\<open>df[a] / df[b].replace(0, np.nan)\<close>.\<close>

definition ratio :: "frame \<Rightarrow> string \<Rightarrow> string \<Rightarrow> error + cell list" where
  "ratio d a b =
     (case getitem d a of
        Inl e \<Rightarrow> Inl e
      | Inr xs \<Rightarrow>
          (case getitem d b of
             Inl e \<Rightarrow> Inl e
           | Inr ys \<Rightarrow> collect (map (\<lambda>(x, y). truediv x y) (zip xs (map replace_zero ys)))))"

definition add_features :: "frame \<Rightarrow> error + frame" where
  "add_features df =
     (case ratio df ''GDP'' ''Population'' of
        Inl e \<Rightarrow> Inl e
      | Inr v1 \<Rightarrow>
          (let df1 = setitem df ''GDP_per_capita'' v1
           in case ratio df1 ''under-five deaths'' ''infant deaths'' of
                Inl e \<Rightarrow> Inl e
              | Inr v2 \<Rightarrow>
                  (let df2 = setitem df1 ''Child_mortality_ratio'' v2
                   in case ratio df2 ''Total expenditure'' ''GDP'' of
                        Inl e \<Rightarrow> Inl e
                      | Inr v3 \<Rightarrow> Inr (setitem df2 ''Health_expenditure_per_GDP'' v3))))"

section \<open>The workflow of the notebook\<close>

text \<open>
  The preprocessing statements of the notebook, on the three partitions:
  \<^verbatim>\<open>preprocessor = DataPreprocessor()\<close>,
  \<^verbatim>\<open>X_train = preprocessor.fit_transform(X_train)\<close>,
  \<^verbatim>\<open>X_val = preprocessor.transform(X_val)\<close>,
  \<^verbatim>\<open>X_test = preprocessor.transform(test_data)\<close>.
  The object is handed from each call to the next. The result is the three frames, or the
  first exception, together with the object as the statements leave it.
\<close>

definition preprocess ::
  "frame \<Rightarrow> frame \<Rightarrow> frame \<Rightarrow> (error + frame \<times> frame \<times> frame) \<times> preprocessor"
where
  "preprocess X_train X_val test_data =
     (case fit_transform X_train DataPreprocessor of
        (Inl e, p1) \<Rightarrow> (Inl e, p1)
      | (Inr tr, p1) \<Rightarrow>
          (case transform_call X_val p1 of
             (Inl e, p2) \<Rightarrow> (Inl e, p2)
           | (Inr va, p2) \<Rightarrow>
               (case transform_call test_data p2 of
                  (Inl e, p3) \<Rightarrow> (Inl e, p3)
                | (Inr te, p3) \<Rightarrow> (Inr (tr, va, te), p3))))"

text \<open>
  What the notebook does to one partition before it is handed to the scaler:
  \<^verbatim>\<open>transform\<close>, \<^verbatim>\<open>add_features\<close>, \<^verbatim>\<open>drop('Country', axis=1)\<close>. No other statement touches
  the partition in between.
\<close>

definition prepare :: "preprocessor \<Rightarrow> frame \<Rightarrow> error + frame" where
  "prepare st d =
     (case transform st d of
        Inl e \<Rightarrow> Inl e
      | Inr d1 \<Rightarrow>
          (case add_features d1 of
             Inl e \<Rightarrow> Inl e
           | Inr d2 \<Rightarrow> drop_column d2 ''Country''))"

text \<open>The rows of a frame as lists of entries, in column order.\<close>

definition to_rows :: "frame \<Rightarrow> cell list list" where
  "to_rows d = map (\<lambda>i. map (\<lambda>p. snd p ! i) d) [0..<nrows d]"

text \<open>
  The scaler and the learner are libraries outside the repository. Once fitted, each works
  row by row: \<open>scale\<close> stands for \<^verbatim>\<open>scaler.transform\<close> on one row (it may reject the row),
  \<open>predict\<close> for \<^verbatim>\<open>lgb_model.predict\<close> on one scaled row. The test path of the notebook is
  then \<^verbatim>\<open>test_pred = lgb_model.predict(scaler.transform(X_test))\<close>, and the submission has
  the single column \<^verbatim>\<open>test_pred\<close>.
\<close>

definition submission ::
  "(cell list \<Rightarrow> error + float64 list) \<Rightarrow> (float64 list \<Rightarrow> float64) \<Rightarrow>
     preprocessor \<Rightarrow> frame \<Rightarrow> error + cell list"
where
  "submission scale predict st test_data =
     (case prepare st test_data of
        Inl e \<Rightarrow> Inl e
      | Inr X \<Rightarrow>
          (case collect (map scale (to_rows X)) of
             Inl e \<Rightarrow> Inl e
           | Inr M \<Rightarrow> Inr (map (\<lambda>r. Number (predict r)) M)))"

section \<open>Notions used to state the properties\<close>

text \<open>The frame made of the rows \<open>is\<close> of a frame, in that order (\<^verbatim>\<open>df.iloc[is]\<close>).\<close>

definition select_rows :: "nat list \<Rightarrow> frame \<Rightarrow> frame" where
  "select_rows is d = map (\<lambda>p. (fst p, map (\<lambda>i. snd p ! i) is)) d"

text \<open>
  The specification's ratio: the quotient, or undefined when the denominator is exactly
  zero.
\<close>

definition spec_ratio :: "float64 \<Rightarrow> float64 \<Rightarrow> float64" where
  "spec_ratio x y = (if y = Fin 0 then NaN else fdiv x y)"

definition is_number :: "cell \<Rightarrow> bool" where
  "is_number v = (case v of Number x \<Rightarrow> True | Str s \<Rightarrow> False)"

text \<open>
  The input schema of feature synthesis: the five columns it reads are there and hold
  floats, and the three columns it makes are not there yet.
\<close>

definition numeric_column :: "frame \<Rightarrow> string \<Rightarrow> bool" where
  "numeric_column d c = (case map_of d c of None \<Rightarrow> False | Some xs \<Rightarrow> list_all is_number xs)"

definition feature_schema :: "frame \<Rightarrow> bool" where
  "feature_schema d \<longleftrightarrow>
     wf_frame d \<and>
     list_all (numeric_column d)
       [''GDP'', ''Population'', ''under-five deaths'', ''infant deaths'', ''Total expenditure''] \<and>
     list_all (\<lambda>c. c \<notin> set (columns d))
       [''GDP_per_capita'', ''Child_mortality_ratio'', ''Health_expenditure_per_GDP'']"

subsection \<open>The statistics in the words of the specification\<close>

text \<open>
  The specification has \<^verbatim>\<open>fit\<close> store, for a column, "the mean value grouped by category
  key" and "the global median across all rows". Both are written out here on the columns
  themselves, with the float operations \<^const>\<open>fadd\<close> and \<^const>\<open>fdiv\<close> for the sum and
  the quotient, so that nothing depends on how a float operation rounds.

  The mean of country \<open>k\<close>: the values of the column that are not missing, in the rows of
  country \<open>k\<close>; their sum divided by their number; missing when there is none.
\<close>

definition country_values :: "cell list \<Rightarrow> cell list \<Rightarrow> cell \<Rightarrow> float64 list" where
  "country_values ks xs k =
     concat (map (\<lambda>p. case snd p of
                         Number v \<Rightarrow> if fst p = k \<and> v \<noteq> NaN then [v] else []
                       | Str s \<Rightarrow> [])
               (zip ks xs))"

definition country_mean :: "cell list \<Rightarrow> cell list \<Rightarrow> cell \<Rightarrow> float64" where
  "country_mean ks xs k =
     (let vs = country_values ks xs k
      in if vs = [] then NaN else fdiv (foldl fadd (Fin 0) vs) (Fin (of_nat (length vs))))"

text \<open>
  The median, by counting. The order of the floats that are not missing; a value has rank
  \<open>k\<close> among \<open>vs\<close> when at most \<open>k\<close> of them are smaller and more than \<open>k\<close> are not
  larger (it is the entry \<open>k\<close> of \<open>vs\<close> in ascending order). The median of an odd number of
  values is the one of middle rank; of an even number, half the sum of the two of middle
  rank; of no value, missing.
\<close>

fun fle :: "float64 \<Rightarrow> float64 \<Rightarrow> bool" where
  "fle NaN y = False"
| "fle x NaN = False"
| "fle NegInf y = True"
| "fle x PosInf = True"
| "fle (Fin a) (Fin b) = (a \<le> b)"
| "fle x y = False"

definition flt :: "float64 \<Rightarrow> float64 \<Rightarrow> bool" where
  "flt x y \<longleftrightarrow> fle x y \<and> \<not> fle y x"

definition has_rank :: "float64 list \<Rightarrow> nat \<Rightarrow> float64 \<Rightarrow> bool" where
  "has_rank vs k a \<longleftrightarrow>
     a \<in> set vs \<and> length (filter (\<lambda>v. flt v a) vs) \<le> k \<and> k < length (filter (\<lambda>v. fle v a) vs)"

definition is_median :: "float64 list \<Rightarrow> float64 \<Rightarrow> bool" where
  "is_median vs m \<longleftrightarrow>
     (let n = length vs
      in if n = 0 then m = NaN
         else if odd n then has_rank vs (n div 2) m
         else list_ex (\<lambda>a. list_ex (\<lambda>b. has_rank vs (n div 2 - 1) a \<and> has_rank vs (n div 2) b \<and>
                                          m = fdiv (fadd a b) (Fin 2)) vs) vs)"

text \<open>The values of a column that are not missing.\<close>

definition present_values :: "cell list \<Rightarrow> float64 list" where
  "present_values xs =
     concat (map (\<lambda>x. case x of Number v \<Rightarrow> if v = NaN then [] else [v] | Str s \<Rightarrow> []) xs)"

subsection \<open>Invariants of the fitted object\<close>

text \<open>
  What holds of the two dictionaries after any number of calls of \<^verbatim>\<open>fit\<close>: the keys of
  a dictionary are distinct, every stored statistic is a float, and a column with a series
  of means has a median.
\<close>

definition wf_state :: "preprocessor \<Rightarrow> bool" where
  "wf_state st \<longleftrightarrow>
     distinct (map fst (means_by_country st)) \<and>
     list_all (\<lambda>p. list_all (\<lambda>q. is_number (snd q)) (snd p)) (means_by_country st) \<and>
     list_all (\<lambda>p. is_number (snd p)) (global_medians st) \<and>
     list_all (\<lambda>p. map_of (global_medians st) (fst p) \<noteq> None) (means_by_country st)"

section \<open>Example data\<close>

text \<open>
  A fit portion of five rows in which country A has no GDP at all, and a test set of three
  rows: one of country A, one of a country the fit portion does not have, one of country B.
\<close>

definition example_train :: frame where
  "example_train =
     [(''Country'', [Str ''A'', Str ''A'', Str ''B'', Str ''B'', Str ''D'']),
      (''Status'', [Str ''Developing'', Str ''Developing'', Str ''Developed'', Str ''Developed'',
                    Str ''Developing'']),
      (''GDP'', [Number NaN, Number NaN, Number (Fin 10), Number (Fin 20), Number (Fin 40)]),
      (''Population'', [Number (Fin 2), Number (Fin 4), Number (Fin 5), Number (Fin 8),
                        Number (Fin 10)]),
      (''under-five deaths'', [Number (Fin 3), Number (Fin 3), Number (Fin 4), Number (Fin 6),
                               Number (Fin 1)]),
      (''infant deaths'', [Number (Fin 1), Number (Fin 3), Number (Fin 2), Number (Fin 3),
                           Number (Fin 1)]),
      (''Total expenditure'', [Number (Fin 1), Number (Fin 2), Number (Fin 3), Number (Fin 4),
                               Number (Fin 5)])]"

definition example_test :: frame where
  "example_test =
     [(''Country'', [Str ''A'', Str ''C'', Str ''B'']),
      (''Status'', [Str ''Developing'', Str ''Other'', Str ''Developed'']),
      (''GDP'', [Number NaN, Number NaN, Number NaN]),
      (''Population'', [Number (Fin 2), Number (Fin 0), Number (Fin 5)]),
      (''under-five deaths'', [Number (Fin 3), Number (Fin 4), Number (Fin 6)]),
      (''infant deaths'', [Number (Fin 1), Number (Fin 2), Number (Fin 0)]),
      (''Total expenditure'', [Number (Fin 1), Number (Fin 2), Number (Fin 3)])]"

text \<open>The object after \<^verbatim>\<open>fit\<close> on the example fit portion.\<close>

definition example_state :: preprocessor where
  "example_state =
     \<lparr>means_by_country =
        [(''GDP'', [(Str ''A'', Number NaN), (Str ''B'', Number (Fin 15)),
                    (Str ''D'', Number (Fin 40))])],
      global_medians = [(''GDP'', Number (Fin 20))]\<rparr>"

text \<open>The example test set after one and after two calls of \<^verbatim>\<open>transform\<close>.\<close>

definition example_test_out :: frame where
  "example_test_out =
     [(''Country'', [Str ''A'', Str ''C'', Str ''B'']),
      (''Status'', [Number (Fin 0), Number NaN, Number (Fin 1)]),
      (''GDP'', [Number NaN, Number (Fin 20), Number (Fin 15)]),
      (''Population'', [Number (Fin 2), Number (Fin 0), Number (Fin 5)]),
      (''under-five deaths'', [Number (Fin 3), Number (Fin 4), Number (Fin 6)]),
      (''infant deaths'', [Number (Fin 1), Number (Fin 2), Number (Fin 0)]),
      (''Total expenditure'', [Number (Fin 1), Number (Fin 2), Number (Fin 3)])]"

definition example_test_twice :: frame where
  "example_test_twice =
     [(''Country'', [Str ''A'', Str ''C'', Str ''B'']),
      (''Status'', [Number NaN, Number NaN, Number NaN]),
      (''GDP'', [Number NaN, Number (Fin 20), Number (Fin 15)]),
      (''Population'', [Number (Fin 2), Number (Fin 0), Number (Fin 5)]),
      (''under-five deaths'', [Number (Fin 3), Number (Fin 4), Number (Fin 6)]),
      (''infant deaths'', [Number (Fin 1), Number (Fin 2), Number (Fin 0)]),
      (''Total expenditure'', [Number (Fin 1), Number (Fin 2), Number (Fin 3)])]"

text \<open>
  A second fit portion, with no missing GDP and a missing Population, and the object after
  \<^verbatim>\<open>fit\<close> on the first and then on the second.
\<close>

definition example_refit :: frame where
  "example_refit =
     [(''Country'', [Str ''E'', Str ''E'']),
      (''Status'', [Str ''Developed'', Str ''Developed'']),
      (''GDP'', [Number (Fin 1), Number (Fin 3)]),
      (''Population'', [Number NaN, Number (Fin 7)])]"

definition example_state2 :: preprocessor where
  "example_state2 =
     \<lparr>means_by_country =
        [(''GDP'', [(Str ''A'', Number NaN), (Str ''B'', Number (Fin 15)),
                    (Str ''D'', Number (Fin 40))]),
         (''Population'', [(Str ''E'', Number (Fin 7))])],
      global_medians = [(''GDP'', Number (Fin 20)), (''Population'', Number (Fin 7))]\<rparr>"

text \<open>The example partitions after \<^verbatim>\<open>transform\<close>, and the test set as handed to the scaler.\<close>

definition example_train_out :: frame where
  "example_train_out =
     [(''Country'', [Str ''A'', Str ''A'', Str ''B'', Str ''B'', Str ''D'']),
      (''Status'', [Number (Fin 0), Number (Fin 0), Number (Fin 1), Number (Fin 1),
                    Number (Fin 0)]),
      (''GDP'', [Number NaN, Number NaN, Number (Fin 10), Number (Fin 20), Number (Fin 40)]),
      (''Population'', [Number (Fin 2), Number (Fin 4), Number (Fin 5), Number (Fin 8),
                        Number (Fin 10)]),
      (''under-five deaths'', [Number (Fin 3), Number (Fin 3), Number (Fin 4), Number (Fin 6),
                               Number (Fin 1)]),
      (''infant deaths'', [Number (Fin 1), Number (Fin 3), Number (Fin 2), Number (Fin 3),
                           Number (Fin 1)]),
      (''Total expenditure'', [Number (Fin 1), Number (Fin 2), Number (Fin 3), Number (Fin 4),
                               Number (Fin 5)])]"

definition example_refit_out :: frame where
  "example_refit_out =
     [(''Country'', [Str ''E'', Str ''E'']),
      (''Status'', [Number (Fin 1), Number (Fin 1)]),
      (''GDP'', [Number (Fin 1), Number (Fin 3)]),
      (''Population'', [Number NaN, Number (Fin 7)])]"

definition example_test_prepared :: frame where
  "example_test_prepared =
     [(''Status'', [Number (Fin 0), Number NaN, Number (Fin 1)]),
      (''GDP'', [Number NaN, Number (Fin 20), Number (Fin 15)]),
      (''Population'', [Number (Fin 2), Number (Fin 0), Number (Fin 5)]),
      (''under-five deaths'', [Number (Fin 3), Number (Fin 4), Number (Fin 6)]),
      (''infant deaths'', [Number (Fin 1), Number (Fin 2), Number (Fin 0)]),
      (''Total expenditure'', [Number (Fin 1), Number (Fin 2), Number (Fin 3)]),
      (''GDP_per_capita'', [Number NaN, Number NaN, Number (Fin 3)]),
      (''Child_mortality_ratio'', [Number (Fin 3), Number (Fin 2), Number NaN]),
      (''Health_expenditure_per_GDP'', [Number NaN, Number (Fin (1 / 10)), Number (Fin (1 / 5))])]"

definition example_test_features :: frame where
  "example_test_features =
     [(''Country'', [Str ''A'', Str ''C'', Str ''B'']),
      (''Status'', [Number (Fin 0), Number NaN, Number (Fin 1)]),
      (''GDP'', [Number NaN, Number (Fin 20), Number (Fin 15)]),
      (''Population'', [Number (Fin 2), Number (Fin 0), Number (Fin 5)]),
      (''under-five deaths'', [Number (Fin 3), Number (Fin 4), Number (Fin 6)]),
      (''infant deaths'', [Number (Fin 1), Number (Fin 2), Number (Fin 0)]),
      (''Total expenditure'', [Number (Fin 1), Number (Fin 2), Number (Fin 3)]),
      (''GDP_per_capita'', [Number NaN, Number NaN, Number (Fin 3)]),
      (''Child_mortality_ratio'', [Number (Fin 3), Number (Fin 2), Number NaN]),
      (''Health_expenditure_per_GDP'', [Number NaN, Number (Fin (1 / 10)), Number (Fin (1 / 5))])]"

text \<open>
  Stand-ins for the fitted scaler and the fitted learner, for the examples only. Like the
  \<^verbatim>\<open>StandardScaler\<close> of scikit-learn the scaler lets a missing value through and rejects a
  string; the learner answers with the number of features that are not missing.
\<close>

definition example_scale :: "cell list \<Rightarrow> error + float64 list" where
  "example_scale row = collect (map as_float row)"

definition example_predict :: "float64 list \<Rightarrow> float64" where
  "example_predict r = Fin (of_nat (length (filter (\<lambda>x. x \<noteq> NaN) r)))"

section \<open>Running computations in order\<close>

lemma collect_Inr_iff: "collect rs = Inr xs \<longleftrightarrow> rs = map Inr xs"
proof (induction rs arbitrary: xs)
  case Nil
  then show ?case by auto
next
  case (Cons r rs)
  show ?case
  proof (cases r)
    case (Inl e)
    then show ?thesis by (cases xs) auto
  next
    case (Inr x)
    then show ?thesis using Cons.IH by (cases xs; cases "collect rs") auto
  qed
qed

lemma collect_map_length: "collect (map f xs) = Inr ys \<Longrightarrow> length ys = length xs"
proof -
  assume "collect (map f xs) = Inr ys"
  then have "map f xs = map Inr ys" by (simp add: collect_Inr_iff)
  then have "length (map f xs) = length (map Inr ys)" by simp
  then show ?thesis by simp
qed

lemma collect_map_nth:
  assumes "collect (map f xs) = Inr ys" and "i < length xs"
  shows "f (xs ! i) = Inr (ys ! i)"
proof -
  have eq: "map f xs = map Inr ys" using assms(1) by (simp add: collect_Inr_iff)
  have len: "length ys = length xs" using assms(1) by (rule collect_map_length)
  have "map f xs ! i = map Inr ys ! i" using eq by simp
  then show ?thesis using assms(2) len by simp
qed

lemma collect_Inl: "collect rs = Inl e \<Longrightarrow> Inl e \<in> set rs"
  by (induction rs) (auto split: sum.splits)

section \<open>Frames\<close>

lemma getitem_Inr: "getitem d c = Inr xs \<longleftrightarrow> map_of d c = Some xs"
  by (simp add: getitem_def split: option.splits)

lemma map_of_setitem: "map_of (setitem d c xs) = (map_of d)(c \<mapsto> xs)"
  by (simp add: setitem_def update_conv')

lemma columns_setitem:
  "columns (setitem d c xs) = (if c \<in> set (columns d) then columns d else columns d @ [c])"
  by (induction d) (auto simp: setitem_def columns_def)

lemma nrows_setitem: "length xs = nrows d \<Longrightarrow> nrows (setitem d c xs) = nrows d"
  by (cases d) (auto simp: setitem_def nrows_def)

lemma set_update_subset: "set (AList.update k v al) \<subseteq> insert (k, v) (set al)"
  by (induction al) auto

lemma wf_frame_setitem:
  assumes "wf_frame d" and "length xs = nrows d"
  shows "wf_frame (setitem d c xs)"
proof -
  have n: "nrows (setitem d c xs) = nrows d"
    using assms(2) by (rule nrows_setitem)
  show ?thesis
    using assms n set_update_subset [of c xs d] unfolding wf_frame_def
    by (auto simp: list_all_iff setitem_def distinct_update)
qed

lemma wf_frame_length: "wf_frame d \<Longrightarrow> map_of d c = Some xs \<Longrightarrow> length xs = nrows d"
  by (auto simp: wf_frame_def list_all_iff dest: map_of_SomeD)

lemma row_at_setitem:
  "row_at (setitem d c xs) i = (row_at d i)(c \<mapsto> xs ! i)"
  by (auto simp: row_at_def map_of_setitem)

section \<open>The loop of transform\<close>

lemma fill_value_keep: "row c = Some v \<Longrightarrow> \<not> isna v \<Longrightarrow> fill_value s md c row = Inr v"
  by (simp add: fill_value_def)

lemma fill_value_error: "fill_value s md c row = Inl e \<Longrightarrow> \<exists>c'. e = KeyError c'"
  by (auto simp: fill_value_def split: option.splits if_splits)

lemma impute_col_row:
  assumes "impute_col s md c d = Inr d'" and "i < nrows d"
  shows "\<exists>v. fill_value s md c (row_at d i) = Inr v \<and> row_at d' i = (row_at d i)(c \<mapsto> v)"
proof -
  from assms(1) obtain vs where
    vs: "collect (map (\<lambda>i. fill_value s md c (row_at d i)) [0..<nrows d]) = Inr vs"
    and d': "d' = setitem d c vs"
    by (auto simp: impute_col_def split: sum.splits)
  from collect_map_nth [OF vs, of i] assms(2)
  have "fill_value s md c (row_at d i) = Inr (vs ! i)" by simp
  then show ?thesis by (simp add: d' row_at_setitem)
qed

lemma impute_col_shape:
  assumes "impute_col s md c d = Inr d'"
  shows "nrows d' = nrows d" and "wf_frame d \<Longrightarrow> wf_frame d'"
    and "c' \<noteq> c \<Longrightarrow> map_of d' c' = map_of d c'"
proof -
  from assms(1) obtain vs where
    vs: "collect (map (\<lambda>i. fill_value s md c (row_at d i)) [0..<nrows d]) = Inr vs"
    and d': "d' = setitem d c vs"
    by (auto simp: impute_col_def split: sum.splits)
  have len: "length vs = nrows d"
    using collect_map_length [OF vs] by simp
  show "nrows d' = nrows d" by (simp add: d' nrows_setitem len)
  show "wf_frame d \<Longrightarrow> wf_frame d'" by (simp add: d' wf_frame_setitem len)
  show "c' \<noteq> c \<Longrightarrow> map_of d' c' = map_of d c'" by (simp add: d' map_of_setitem)
qed

lemma impute_col_error: "impute_col s md c d = Inl e \<Longrightarrow> \<exists>c'. e = KeyError c'"
proof -
  assume "impute_col s md c d = Inl e"
  then have "collect (map (\<lambda>i. fill_value s md c (row_at d i)) [0..<nrows d]) = Inl e"
    by (auto simp: impute_col_def split: sum.splits)
  then obtain i where "fill_value s md c (row_at d i) = Inl e"
    by (auto dest!: collect_Inl)
  then show ?thesis by (rule fill_value_error)
qed

lemma impute_shape:
  "impute ms md d = Inr d' \<Longrightarrow> nrows d' = nrows d \<and> (wf_frame d \<longrightarrow> wf_frame d')"
proof (induction ms arbitrary: d)
  case Nil
  then show ?case by simp
next
  case (Cons p ms)
  obtain c s where p: "p = (c, s)" by (cases p)
  from Cons.prems obtain d1 where 1: "impute_col s md c d = Inr d1" and 2: "impute ms md d1 = Inr d'"
    by (auto simp: p split: sum.splits)
  show ?case using Cons.IH [OF 2] impute_col_shape [OF 1] by simp
qed

lemma impute_other:
  "impute ms md d = Inr d' \<Longrightarrow> c \<notin> fst ` set ms \<Longrightarrow> map_of d' c = map_of d c"
proof (induction ms arbitrary: d)
  case Nil
  then show ?case by simp
next
  case (Cons p ms)
  obtain c1 s where p: "p = (c1, s)" by (cases p)
  from Cons.prems obtain d1 where 1: "impute_col s md c1 d = Inr d1" and 2: "impute ms md d1 = Inr d'"
    by (auto simp: p split: sum.splits)
  have "c \<noteq> c1" using Cons.prems(2) p by auto
  then show ?case using Cons.IH [OF 2] impute_col_shape(3) [OF 1] Cons.prems(2) by simp
qed

lemma impute_error: "impute ms md d = Inl e \<Longrightarrow> \<exists>c'. e = KeyError c'"
proof (induction ms arbitrary: d)
  case Nil
  then show ?case by simp
next
  case (Cons p ms)
  obtain c s where p: "p = (c, s)" by (cases p)
  show ?case
  proof (cases "impute_col s md c d")
    case (Inl e1)
    then have "e = e1" using Cons.prems p by simp
    then show ?thesis using impute_col_error [OF Inl] by simp
  next
    case (Inr d1)
    then have "impute ms md d1 = Inl e" using Cons.prems p by simp
    then show ?thesis by (rule Cons.IH)
  qed
qed

lemma impute_keep:
  "impute ms md d = Inr d' \<Longrightarrow> i < nrows d \<Longrightarrow> row_at d i c = Some v \<Longrightarrow> \<not> isna v
   \<Longrightarrow> row_at d' i c = Some v"
proof (induction ms arbitrary: d)
  case Nil
  then show ?case by simp
next
  case (Cons p ms)
  obtain c1 s where p: "p = (c1, s)" by (cases p)
  from Cons.prems obtain d1 where 1: "impute_col s md c1 d = Inr d1" and 2: "impute ms md d1 = Inr d'"
    by (auto simp: p split: sum.splits)
  from impute_col_row [OF 1 Cons.prems(2)] obtain w where
    w: "fill_value s md c1 (row_at d i) = Inr w" and r: "row_at d1 i = (row_at d i)(c1 \<mapsto> w)"
    by blast
  have "row_at d1 i c = Some v"
    using r w Cons.prems(3,4) by (auto simp: fill_value_keep)
  moreover have "i < nrows d1" using impute_col_shape(1) [OF 1] Cons.prems(2) by simp
  ultimately show ?case using Cons.IH [OF 2] Cons.prems(4) by simp
qed

lemma impute_fill:
  assumes "impute ms md d = Inr d'" and "distinct (map fst ms)" and "(c, s) \<in> set ms"
    and "i < nrows d" and "row_at d i c = Some v" and "isna v"
    and "row_at d i ''Country'' = Some k" and "\<not> isna k"
  shows "\<exists>med. map_of md c = Some med \<and> row_at d' i c = Some (series_get s k med)"
  using assms
proof (induction ms arbitrary: d)
  case Nil
  then show ?case by simp
next
  case (Cons p ms)
  obtain c1 s1 where p: "p = (c1, s1)" by (cases p)
  from Cons.prems(1) obtain d1 where 1: "impute_col s1 md c1 d = Inr d1" and 2: "impute ms md d1 = Inr d'"
    by (auto simp: p split: sum.splits)
  from impute_col_row [OF 1 Cons.prems(4)] obtain w where
    w: "fill_value s1 md c1 (row_at d i) = Inr w" and r: "row_at d1 i = (row_at d i)(c1 \<mapsto> w)"
    by blast
  have n1: "i < nrows d1" using impute_col_shape(1) [OF 1] Cons.prems(4) by simp
  show ?case
  proof (cases "c1 = c")
    case True
    then have s1: "s1 = s" and notin: "c \<notin> fst ` set ms"
      using Cons.prems(2,3) p by (auto simp: image_iff)
    from w True s1 Cons.prems(5,6,7) obtain med where
      med: "map_of md c = Some med" and wv: "w = series_get s k med"
      by (auto simp: fill_value_def split: option.splits)
    have "row_at d' i c = row_at d1 i c"
      using impute_other [OF 2 notin] by (simp add: row_at_def)
    then show ?thesis using r True med wv by simp
  next
    case False
    then have in_ms: "(c, s) \<in> set ms" using Cons.prems(3) p by auto
    have rc: "row_at d1 i c = Some v" using r False Cons.prems(5) by simp
    have rk: "row_at d1 i ''Country'' = Some k"
      using r w Cons.prems(7,8) by (auto simp: fill_value_keep)
    show ?thesis
      using Cons.IH [OF 2 _ in_ms n1 rc Cons.prems(6) rk Cons.prems(8)] Cons.prems(2) by simp
  qed
qed

lemma series_get_number:
  "list_all (\<lambda>q. is_number (snd q)) s \<Longrightarrow> is_number med \<Longrightarrow> is_number (series_get s k med)"
proof (cases "map_of s k")
  case None
  assume "is_number med"
  then show ?thesis using None by (simp add: series_get_def)
next
  case (Some x)
  assume "list_all (\<lambda>q. is_number (snd q)) s"
  moreover have "(k, x) \<in> set s" using Some by (rule map_of_SomeD)
  ultimately have "is_number x" by (auto simp: list_all_iff)
  then show ?thesis using Some by (simp add: series_get_def)
qed

lemma fill_value_number:
  assumes "fill_value s md c row = Inr w" and "row c = Some v" and "is_number v"
    and "list_all (\<lambda>q. is_number (snd q)) s" and "list_all (\<lambda>p. is_number (snd p)) md"
  shows "is_number w"
proof (cases "isna v")
  case False
  then show ?thesis using assms(1,2,3) by (simp add: fill_value_def)
next
  case True
  then obtain k med where "map_of md c = Some med" and w: "w = series_get s k med"
    using assms(1,2) by (auto simp: fill_value_def split: option.splits)
  then have "(c, med) \<in> set md" by (auto dest: map_of_SomeD)
  then have "is_number med" using assms(5) by (auto simp: list_all_iff)
  then show ?thesis using w assms(4) by (simp add: series_get_number)
qed

lemma impute_number:
  "impute ms md d = Inr d' \<Longrightarrow> i < nrows d \<Longrightarrow> row_at d i c = Some v \<Longrightarrow> is_number v
   \<Longrightarrow> list_all (\<lambda>p. list_all (\<lambda>q. is_number (snd q)) (snd p)) ms
   \<Longrightarrow> list_all (\<lambda>p. is_number (snd p)) md
   \<Longrightarrow> \<exists>w. row_at d' i c = Some w \<and> is_number w"
proof (induction ms arbitrary: d v)
  case Nil
  then show ?case by simp
next
  case (Cons p ms)
  obtain c1 s where p: "p = (c1, s)" by (cases p)
  from Cons.prems(1) obtain d1 where 1: "impute_col s md c1 d = Inr d1" and 2: "impute ms md d1 = Inr d'"
    by (auto simp: p split: sum.splits)
  from impute_col_row [OF 1 Cons.prems(2)] obtain w where
    w: "fill_value s md c1 (row_at d i) = Inr w" and r: "row_at d1 i = (row_at d i)(c1 \<mapsto> w)"
    by blast
  have s: "list_all (\<lambda>q. is_number (snd q)) s"
    and ms: "list_all (\<lambda>p. list_all (\<lambda>q. is_number (snd q)) (snd p)) ms"
    using Cons.prems(5) p by simp_all
  have "\<exists>v1. row_at d1 i c = Some v1 \<and> is_number v1"
  proof (cases "c1 = c")
    case True
    then show ?thesis
      using r fill_value_number [OF w _ Cons.prems(4) s Cons.prems(6)] Cons.prems(3) by simp
  next
    case False
    then show ?thesis using r Cons.prems(3,4) by simp
  qed
  then obtain v1 where v1: "row_at d1 i c = Some v1" "is_number v1" by blast
  have n1: "i < nrows d1" using impute_col_shape(1) [OF 1] Cons.prems(2) by simp
  show ?case using Cons.IH [OF 2 n1 v1 ms Cons.prems(6)] .
qed

section \<open>transform\<close>

lemma transform_parts:
  assumes "transform st d = Inr d'"
  obtains d1 xs where "impute (means_by_country st) (global_medians st) d = Inr d1"
    and "map_of d1 ''Status'' = Some xs" and "d' = setitem d1 ''Status'' (map encode_status xs)"
  using assms by (auto simp: transform_def getitem_def split: sum.splits option.splits)

lemma transform_other:
  assumes "transform st d = Inr d'" and "c \<notin> fst ` set (means_by_country st)"
    and "c \<noteq> ''Status''"
  shows "map_of d' c = map_of d c"
proof -
  from assms(1) obtain d1 xs where
    1: "impute (means_by_country st) (global_medians st) d = Inr d1"
    and 3: "d' = setitem d1 ''Status'' (map encode_status xs)"
    by (rule transform_parts)
  show ?thesis using impute_other [OF 1 assms(2)] assms(3) by (simp add: 3 map_of_setitem)
qed

lemma transform_fill:
  assumes "transform st d = Inr d'" and "distinct (map fst (means_by_country st))"
    and "(c, s) \<in> set (means_by_country st)" and "c \<noteq> ''Status''"
    and "i < nrows d" and "row_at d i c = Some v" and "isna v"
    and "row_at d i ''Country'' = Some k" and "\<not> isna k"
  shows "\<exists>med. map_of (global_medians st) c = Some med \<and>
           row_at d' i c = Some (series_get s k med)"
proof -
  from assms(1) obtain d1 xs where
    1: "impute (means_by_country st) (global_medians st) d = Inr d1"
    and 3: "d' = setitem d1 ''Status'' (map encode_status xs)"
    by (rule transform_parts)
  have "row_at d' i c = row_at d1 i c"
    using assms(4) by (simp add: 3 row_at_setitem)
  then show ?thesis
    using impute_fill [OF 1 assms(2,3,5,6,7,8,9)] by simp
qed

lemma transform_errors: "transform st d = Inl e \<Longrightarrow> \<exists>c. e = KeyError c"
  by (auto simp: transform_def getitem_def split: sum.splits option.splits dest: impute_error)

lemma encode_status_Number: "encode_status (Number x) = Number NaN"
  by (simp add: encode_status_def status_codes_def)

lemma encode_status_other:
  "v \<noteq> Str ''Developing'' \<Longrightarrow> v \<noteq> Str ''Developed'' \<Longrightarrow> encode_status v = Number NaN"
  by (simp add: encode_status_def status_codes_def)

lemma transform_status_row:
  assumes "transform st d = Inr d'" and "wf_frame d" and "i < nrows d"
  obtains d1 v where "impute (means_by_country st) (global_medians st) d = Inr d1"
    and "row_at d1 i ''Status'' = Some v" and "row_at d' i ''Status'' = Some (encode_status v)"
proof -
  from assms(1) obtain d1 xs where
    1: "impute (means_by_country st) (global_medians st) d = Inr d1"
    and 2: "map_of d1 ''Status'' = Some xs"
    and 3: "d' = setitem d1 ''Status'' (map encode_status xs)"
    by (rule transform_parts)
  have wf1: "wf_frame d1" and n1: "nrows d1 = nrows d"
    using impute_shape [OF 1] assms(2) by simp_all
  have len: "length xs = nrows d" using wf_frame_length [OF wf1 2] n1 by simp
  have a: "row_at d1 i ''Status'' = Some (xs ! i)" by (simp add: row_at_def 2)
  have b: "row_at d' i ''Status'' = Some (encode_status (xs ! i))"
    using assms(3) len by (simp add: 3 row_at_setitem)
  show ?thesis using that [OF 1 a b] .
qed

lemma transform_shape:
  assumes "transform st d = Inr d'" and "wf_frame d"
  shows "wf_frame d'" and "nrows d' = nrows d"
proof -
  from assms(1) obtain d1 xs where
    1: "impute (means_by_country st) (global_medians st) d = Inr d1"
    and 2: "map_of d1 ''Status'' = Some xs"
    and 3: "d' = setitem d1 ''Status'' (map encode_status xs)"
    by (rule transform_parts)
  have wf1: "wf_frame d1" and n1: "nrows d1 = nrows d"
    using impute_shape [OF 1] assms(2) by simp_all
  have len: "length (map encode_status xs) = nrows d1" using wf_frame_length [OF wf1 2] by simp
  show "wf_frame d'" unfolding 3 using wf1 len by (rule wf_frame_setitem)
  show "nrows d' = nrows d" unfolding 3 using nrows_setitem [OF len] n1 by simp
qed

section \<open>fit\<close>

lemma fit_col_cases:
  assumes "fit_col d c st = (e, st')"
  shows "(e \<noteq> None \<and> st' = st) \<or>
         (\<exists>ks xs m. getitem d ''Country'' = Inr ks \<and> getitem d c = Inr xs \<and>
            groupby_mean ks xs = Inr m \<and>
            ((e \<noteq> None \<and>
              st' = st\<lparr>means_by_country := AList.update c m (means_by_country st)\<rparr>) \<or>
             (\<exists>med. median xs = Inr med \<and> e = None \<and>
                st' = st\<lparr>means_by_country := AList.update c m (means_by_country st),
                         global_medians := AList.update c med (global_medians st)\<rparr>)))"
  using assms by (auto simp: fit_col_def Let_def split: sum.splits)

lemma groupby_mean_number:
  "groupby_mean ks xs = Inr m \<Longrightarrow> list_all (\<lambda>q. is_number (snd q)) m"
  by (auto simp: groupby_mean_def list_all_iff is_number_def split: sum.splits)

lemma median_number: "median xs = Inr med \<Longrightarrow> is_number med"
  by (auto simp: median_def is_number_def split: sum.splits)

lemma groupby_mean_median:
  "groupby_mean ks xs = Inr m \<Longrightarrow> \<exists>med. median xs = Inr med"
  by (auto simp: groupby_mean_def median_def split: sum.splits)

lemma fit_col_cases2:
  assumes "fit_col d c st = (e, st')"
  shows "(e \<noteq> None \<and> st' = st) \<or>
         (\<exists>m med. is_number med \<and> list_all (\<lambda>q. is_number (snd q)) m \<and> e = None \<and>
            st' = st\<lparr>means_by_country := AList.update c m (means_by_country st),
                     global_medians := AList.update c med (global_medians st)\<rparr>)"
proof -
  from fit_col_cases [OF assms] consider "e \<noteq> None" "st' = st"
    | ks xs m where "groupby_mean ks xs = Inr m" "e \<noteq> None"
        "st' = st\<lparr>means_by_country := AList.update c m (means_by_country st)\<rparr>"
        "getitem d c = Inr xs" "getitem d ''Country'' = Inr ks"
    | ks xs m med where "groupby_mean ks xs = Inr m" "median xs = Inr med" "e = None"
        "st' = st\<lparr>means_by_country := AList.update c m (means_by_country st),
                     global_medians := AList.update c med (global_medians st)\<rparr>"
    by blast
  then show ?thesis
  proof cases
    case 1
    then show ?thesis by simp
  next
    case 2
    from groupby_mean_median [OF 2(1)] obtain med where "median xs = Inr med" by blast
    then have "e = None"
      using assms 2(1,4,5) by (simp add: fit_col_def Let_def)
    then show ?thesis using 2(2) by simp
  next
    case 3
    then show ?thesis using groupby_mean_number median_number by blast
  qed
qed

lemma list_all_update:
  "list_all P al \<Longrightarrow> P (k, v) \<Longrightarrow> list_all P (AList.update k v al)"
  using set_update_subset [of k v al] by (auto simp: list_all_iff)

lemma fit_col_wf_state:
  assumes "fit_col d c st = (e, st')" and "wf_state st"
  shows "wf_state st'"
proof -
  from fit_col_cases2 [OF assms(1)] show ?thesis
  proof (elim disjE exE conjE)
    assume "st' = st"
    then show ?thesis using assms(2) by simp
  next
    fix m med
    assume num: "is_number med" "list_all (\<lambda>q. is_number (snd q)) m"
      and st': "st' = st\<lparr>means_by_country := AList.update c m (means_by_country st),
                     global_medians := AList.update c med (global_medians st)\<rparr>"
    have 1: "distinct (map fst (means_by_country st'))"
      using assms(2) by (simp add: st' wf_state_def distinct_update)
    have 2: "list_all (\<lambda>p. list_all (\<lambda>q. is_number (snd q)) (snd p)) (means_by_country st')"
      using assms(2) num(2) by (simp add: st' wf_state_def list_all_update)
    have 3: "list_all (\<lambda>p. is_number (snd p)) (global_medians st')"
      using assms(2) num(1) by (simp add: st' wf_state_def list_all_update)
    have "list_all (\<lambda>p. map_of (AList.update c med (global_medians st)) (fst p) \<noteq> None)
            (means_by_country st)"
      using assms(2) by (auto simp: wf_state_def list_all_iff update_conv')
    then have 4: "list_all (\<lambda>p. map_of (global_medians st') (fst p) \<noteq> None) (means_by_country st')"
      by (simp add: st' list_all_update update_conv')
    show ?thesis using 1 2 3 4 by (simp add: wf_state_def)
  qed
qed

lemma fit_col_other:
  assumes "fit_col d c st = (e, st')" and "c' \<noteq> c"
  shows "map_of (means_by_country st') c' = map_of (means_by_country st) c'"
    and "map_of (global_medians st') c' = map_of (global_medians st) c'"
  using fit_col_cases [OF assms(1)] assms(2) by (auto simp: update_conv')

lemma fit_col_keys:
  assumes "fit_col d c st = (e, st')"
  shows "fst ` set (means_by_country st') \<subseteq> insert c (fst ` set (means_by_country st))"
  using fit_col_cases [OF assms(1)] set_update_subset by (fastforce simp: image_iff)

lemma fit_col_recorded:
  assumes "fit_col d c st = (None, st')"
  shows "\<exists>ks xs m med. getitem d ''Country'' = Inr ks \<and> getitem d c = Inr xs \<and>
           groupby_mean ks xs = Inr m \<and> median xs = Inr med \<and>
           map_of (means_by_country st') c = Some m \<and> map_of (global_medians st') c = Some med"
  using fit_col_cases [OF assms(1)] by (auto simp: update_conv')

lemma fit_cols_wf_state:
  "fit_cols d cs st = (e, st') \<Longrightarrow> wf_state st \<Longrightarrow> wf_state st'"
proof (induction cs arbitrary: st)
  case Nil
  then show ?case by simp
next
  case (Cons c cs)
  obtain e1 st1 where 1: "fit_col d c st = (e1, st1)" by (cases "fit_col d c st")
  have wf1: "wf_state st1" using fit_col_wf_state [OF 1 Cons.prems(2)] .
  show ?case
  proof (cases e1)
    case None
    then have "fit_cols d cs st1 = (e, st')" using Cons.prems(1) 1 by simp
    then show ?thesis using Cons.IH wf1 by blast
  next
    case (Some err)
    then have "st' = st1" using Cons.prems(1) 1 by simp
    then show ?thesis using wf1 by simp
  qed
qed

lemma fit_cols_other:
  "fit_cols d cs st = (e, st') \<Longrightarrow> c \<notin> set cs \<Longrightarrow>
     map_of (means_by_country st') c = map_of (means_by_country st) c \<and>
     map_of (global_medians st') c = map_of (global_medians st) c"
proof (induction cs arbitrary: st)
  case Nil
  then show ?case by simp
next
  case (Cons c1 cs)
  obtain e1 st1 where 1: "fit_col d c1 st = (e1, st1)" by (cases "fit_col d c1 st")
  have ne: "c \<noteq> c1" and notin: "c \<notin> set cs" using Cons.prems(2) by auto
  have step: "map_of (means_by_country st1) c = map_of (means_by_country st) c \<and>
        map_of (global_medians st1) c = map_of (global_medians st) c"
    using fit_col_other [OF 1 ne] by simp
  show ?case
  proof (cases e1)
    case None
    then have "fit_cols d cs st1 = (e, st')" using Cons.prems(1) 1 by simp
    then show ?thesis using Cons.IH notin step by metis
  next
    case (Some err)
    then have "st' = st1" using Cons.prems(1) 1 by simp
    then show ?thesis using step by simp
  qed
qed

lemma fit_cols_keys:
  "fit_cols d cs st = (e, st') \<Longrightarrow>
     fst ` set (means_by_country st') \<subseteq> set cs \<union> fst ` set (means_by_country st)"
proof (induction cs arbitrary: st)
  case Nil
  then show ?case by simp
next
  case (Cons c1 cs)
  obtain e1 st1 where 1: "fit_col d c1 st = (e1, st1)" by (cases "fit_col d c1 st")
  note k1 = fit_col_keys [OF 1]
  show ?case
  proof (cases e1)
    case None
    then have "fit_cols d cs st1 = (e, st')" using Cons.prems(1) 1 by simp
    from Cons.IH [OF this] k1 show ?thesis by auto
  next
    case (Some err)
    then have "st' = st1" using Cons.prems(1) 1 by simp
    then show ?thesis using k1 by auto
  qed
qed

lemma fit_cols_recorded:
  "fit_cols d cs st = (None, st') \<Longrightarrow> c \<in> set cs \<Longrightarrow>
     \<exists>ks xs m med. getitem d ''Country'' = Inr ks \<and> getitem d c = Inr xs \<and>
           groupby_mean ks xs = Inr m \<and> median xs = Inr med \<and>
           map_of (means_by_country st') c = Some m \<and> map_of (global_medians st') c = Some med"
proof (induction cs arbitrary: st)
  case Nil
  then show ?case by simp
next
  case (Cons c1 cs)
  obtain e1 st1 where 1: "fit_col d c1 st = (e1, st1)" by (cases "fit_col d c1 st")
  have e1: "e1 = None" using Cons.prems(1) 1 by (cases e1) auto
  then have 2: "fit_cols d cs st1 = (None, st')" using Cons.prems(1) 1 by simp
  show ?case
  proof (cases "c \<in> set cs")
    case True
    then show ?thesis using Cons.IH [OF 2] by simp
  next
    case False
    then have c: "c1 = c" using Cons.prems(2) by simp
    from fit_col_recorded [OF 1 [unfolded e1 c]] fit_cols_other [OF 2 False]
    show ?thesis by simp
  qed
qed

lemma cols_with_na_iff:
  "c \<in> set (cols_with_na d) \<longleftrightarrow> (\<exists>xs. (c, xs) \<in> set d \<and> (\<exists>x\<in>set xs. isna x))"
  by (force simp: cols_with_na_def list_ex_iff)

lemma wf_state_init: "wf_state DataPreprocessor"
  by (simp add: wf_state_def DataPreprocessor_def)

lemma fit_wf_state: "fit d st0 = (e, st) \<Longrightarrow> wf_state st0 \<Longrightarrow> wf_state st"
  using fit_cols_wf_state [of d "cols_with_na d" st0 e st] by (simp add: fit_def)

lemma fit_keys_fresh:
  "fit d DataPreprocessor = (e, st) \<Longrightarrow> fst ` set (means_by_country st) \<subseteq> set (cols_with_na d)"
  using fit_cols_keys [of d "cols_with_na d" DataPreprocessor e st]
  by (simp add: fit_def DataPreprocessor_def)

section \<open>The examples, evaluated\<close>

lemma example_fit: "fit example_train DataPreprocessor = (None, example_state)"
  by code_simp

lemma example_transform: "transform example_state example_test = Inr example_test_out"
  by code_simp

lemma example_transform_twice: "transform example_state example_test_out = Inr example_test_twice"
  by code_simp

lemma example_test_wf: "wf_frame example_test"
  by code_simp

section \<open>The mean of a group and the median\<close>

lemma as_float_Inr: "as_float x = Inr v \<longleftrightarrow> x = Number v"
  by (cases x) auto

lemma collect_as_float: "collect (map as_float xs) = Inr vs \<Longrightarrow> xs = map Number vs"
proof (induction xs arbitrary: vs)
  case Nil
  then show ?case by simp
next
  case (Cons x xs)
  then show ?case by (cases x) (auto split: sum.splits)
qed

lemma zip_map_Number: "zip ks (map Number vs) = map (\<lambda>q. (fst q, Number (snd q))) (zip ks vs)"
  by (simp add: zip_map2 case_prod_beta)

lemma map_of_tabulate:
  "map_of (map (\<lambda>k. (k, f k)) xs) k = (if k \<in> set xs then Some (f k) else None)"
  by (induction xs) auto

lemma country_values_floats:
  "concat (map (\<lambda>p. case snd p of Number v \<Rightarrow> if fst p = k \<and> v \<noteq> NaN then [v] else []
                     | Str s \<Rightarrow> [])
             (map (\<lambda>q. (fst q, Number (snd q))) qs))
   = filter (\<lambda>x. x \<noteq> NaN) (map snd (filter (\<lambda>p. fst p = k) qs))"
  by (induction qs) auto

lemma country_mean_fmean:
  "country_mean ks (map Number vs) k = fmean (map snd (filter (\<lambda>p. fst p = k) (zip ks vs)))"
proof -
  have "country_values ks (map Number vs) k =
        filter (\<lambda>x. x \<noteq> NaN) (map snd (filter (\<lambda>p. fst p = k) (zip ks vs)))"
    by (simp only: country_values_def zip_map_Number country_values_floats)
  then show ?thesis by (simp add: country_mean_def fmean_def fsum_def Let_def)
qed

lemma groupby_mean_lookup:
  assumes "groupby_mean ks xs = Inr m"
  shows "map_of m k =
           (if k \<in> set ks \<and> \<not> isna k then Some (Number (country_mean ks xs k)) else None)"
proof -
  from assms obtain vs where vs: "collect (map as_float xs) = Inr vs"
    and m: "m = map (\<lambda>k. (k, Number (fmean (map snd (filter (\<lambda>p. fst p = k) (zip ks vs))))))
                 (remdups (filter (\<lambda>k. \<not> isna k) ks))"
    by (auto simp: groupby_mean_def split: sum.splits)
  show ?thesis
    unfolding m map_of_tabulate collect_as_float [OF vs] country_mean_fmean by auto
qed

lemma groupby_mean_key: "groupby_mean ks xs = Inr m \<Longrightarrow> map_of m k = Some w \<Longrightarrow> \<not> isna k"
  by (auto simp: groupby_mean_lookup split: if_splits)

lemma present_values_floats: "present_values (map Number vs) = filter (\<lambda>x. x \<noteq> NaN) vs"
  by (induction vs) (auto simp: present_values_def)

lemma fle_num_key: "x \<noteq> NaN \<Longrightarrow> y \<noteq> NaN \<Longrightarrow> fle x y \<longleftrightarrow> num_key x \<le> num_key y"
  by (cases x; cases y) auto

lemma flt_num_key: "x \<noteq> NaN \<Longrightarrow> y \<noteq> NaN \<Longrightarrow> flt x y \<longleftrightarrow> num_key x < num_key y"
  by (auto simp: flt_def fle_num_key)

lemma has_rank_sorted:
  assumes "sorted (map num_key ys)" and "NaN \<notin> set ys" and "k < length ys"
  shows "has_rank ys k (ys ! k)"
proof -
  let ?a = "ys ! k"
  have a: "?a \<in> set ys" using assms(3) by simp
  have na: "?a \<noteq> NaN" using a assms(2) by auto
  have key: "num_key (ys ! i) \<le> num_key (ys ! j)" if "i \<le> j" and "j < length ys" for i j
    using sorted_nth_mono [OF assms(1), of i j] that by simp
  have "filter (\<lambda>v. flt v ?a) (drop k ys) = []"
  proof -
    have "\<not> flt v ?a" if "v \<in> set (drop k ys)" for v
    proof -
      from that obtain j where j: "j < length (drop k ys)" and v: "v = drop k ys ! j"
        by (auto simp: in_set_conv_nth)
      then have "num_key ?a \<le> num_key v" using key [of k "k + j"] by simp
      moreover have "v \<noteq> NaN" using that assms(2) by (auto dest: in_set_dropD)
      ultimately show ?thesis using na by (simp add: flt_num_key)
    qed
    then show ?thesis by (simp add: filter_empty_conv)
  qed
  then have "filter (\<lambda>v. flt v ?a) ys = filter (\<lambda>v. flt v ?a) (take k ys)"
    using filter_append [of "\<lambda>v. flt v ?a" "take k ys" "drop k ys"] by simp
  then have lt: "length (filter (\<lambda>v. flt v ?a) ys) \<le> k"
    using length_filter_le [of "\<lambda>v. flt v ?a" "take k ys"] by simp
  have "filter (\<lambda>v. fle v ?a) (take (Suc k) ys) = take (Suc k) ys"
  proof -
    have "fle v ?a" if "v \<in> set (take (Suc k) ys)" for v
    proof -
      from that obtain j where j: "j < length (take (Suc k) ys)" and v: "v = take (Suc k) ys ! j"
        by (auto simp: in_set_conv_nth)
      then have "num_key v \<le> num_key ?a" using key [of j k] assms(3) by simp
      moreover have "v \<noteq> NaN" using that assms(2) by (auto dest: in_set_takeD)
      ultimately show ?thesis using na by (simp add: fle_num_key)
    qed
    then show ?thesis by (simp add: filter_id_conv)
  qed
  then have "length (filter (\<lambda>v. fle v ?a) ys) =
      length (take (Suc k) ys) + length (filter (\<lambda>v. fle v ?a) (drop (Suc k) ys))"
    using filter_append [of "\<lambda>v. fle v ?a" "take (Suc k) ys" "drop (Suc k) ys"] by simp
  then have le: "k < length (filter (\<lambda>v. fle v ?a) ys)" using assms(3) by simp
  show ?thesis using a lt le by (simp add: has_rank_def)
qed

lemma has_rank_sort:
  "has_rank (sort_key f vs) k a \<longleftrightarrow> has_rank vs k a"
  by (simp add: has_rank_def filter_sort)

lemma fmedian_is_median: "is_median (filter (\<lambda>x. x \<noteq> NaN) vs) (fmedian vs)"
proof -
  let ?fs = "filter (\<lambda>x. x \<noteq> NaN) vs"
  let ?ys = "sort_key num_key ?fs"
  let ?n = "length ?fs"
  have len: "length ?ys = ?n" by simp
  have nil: "?ys = [] \<longleftrightarrow> ?fs = []" using len by (metis length_0_conv)
  have sorted: "sorted (map num_key ?ys)" by (rule sorted_sort_key)
  have nonan: "NaN \<notin> set ?ys" by simp
  have rank: "has_rank ?fs k (?ys ! k)" if "k < ?n" for k
    using has_rank_sorted [OF sorted nonan, of k] that by (simp add: has_rank_sort)
  have mem: "?ys ! k \<in> set ?fs" if "k < ?n" for k
    using nth_mem [of k ?ys] that by simp
  show ?thesis
  proof (cases "?n = 0")
    case True
    then show ?thesis by (simp add: is_median_def fmedian_def Let_def nil)
  next
    case False
    show ?thesis
    proof (cases "odd ?n")
      case True
      then have "?n div 2 < ?n" using False by simp
      from rank [OF this] show ?thesis using True False
        by (simp add: is_median_def fmedian_def Let_def nil)
    next
      case even: False
      have pos: "0 < ?n" using False by simp
      have k1: "?n div 2 - 1 < ?n" and k2: "?n div 2 < ?n" using pos by arith+
      have "has_rank ?fs (?n div 2 - 1) (?ys ! (?n div 2 - 1)) \<and>
            has_rank ?fs (?n div 2) (?ys ! (?n div 2)) \<and>
            fmedian vs = fdiv (fadd (?ys ! (?n div 2 - 1)) (?ys ! (?n div 2))) (Fin 2)"
        using rank [OF k1] rank [OF k2] even False by (simp add: fmedian_def Let_def nil)
      then have "list_ex (\<lambda>a. list_ex (\<lambda>b. has_rank ?fs (?n div 2 - 1) a \<and>
            has_rank ?fs (?n div 2) b \<and> fmedian vs = fdiv (fadd a b) (Fin 2)) ?fs) ?fs"
        unfolding list_ex_iff using mem [OF k1] mem [OF k2] by blast
      then show ?thesis using even False by (simp add: is_median_def Let_def)
    qed
  qed
qed

lemma median_is_median:
  assumes "median xs = Inr med"
  shows "\<exists>fm. med = Number fm \<and> is_median (present_values xs) fm"
proof -
  from assms obtain vs where vs: "collect (map as_float xs) = Inr vs"
    and med: "med = Number (fmedian vs)"
    by (auto simp: median_def split: sum.splits)
  show ?thesis
    using fmedian_is_median [of vs]
    by (simp add: med collect_as_float [OF vs] present_values_floats)
qed

lemma fit_recorded:
  assumes "fit d st0 = (None, st)" and "c \<in> set (cols_with_na d)"
  shows "\<exists>ks xs m med. getitem d ''Country'' = Inr ks \<and> getitem d c = Inr xs \<and>
           groupby_mean ks xs = Inr m \<and> median xs = Inr med \<and>
           map_of (means_by_country st) c = Some m \<and> map_of (global_medians st) c = Some med"
  using fit_cols_recorded [of d "cols_with_na d" st0 st c] assms by (simp add: fit_def)

lemma fit_other:
  assumes "fit d st0 = (e, st)" and "c \<notin> set (cols_with_na d)"
  shows "map_of (means_by_country st) c = map_of (means_by_country st0) c"
    and "map_of (global_medians st) c = map_of (global_medians st0) c"
  using fit_cols_other [of d "cols_with_na d" st0 e st c] assms by (simp_all add: fit_def)

section \<open>Feature synthesis, row by row\<close>

lemma fdiv_NaN_right: "fdiv x NaN = NaN"
  by (cases x) simp_all

lemma truediv_replace_zero:
  assumes "truediv x (replace_zero y) = Inr v"
  shows "\<exists>a b. x = Number a \<and> y = Number b \<and> v = Number (spec_ratio a b)"
proof -
  from assms obtain a b' where a: "x = Number a" and b': "replace_zero y = Number b'"
    and v: "v = Number (fdiv a b')"
    by (auto simp: truediv_def as_float_Inr split: sum.splits)
  from b' obtain b where b: "y = Number b" and "b' = (if b = Fin 0 then NaN else b)"
    by (cases y) (auto simp: replace_zero_def split: if_splits)
  then have "fdiv a b' = spec_ratio a b"
    by (simp add: spec_ratio_def fdiv_NaN_right)
  then show ?thesis using a b v by simp
qed

lemma ratio_parts:
  assumes "ratio d a b = Inr vs"
  obtains xs ys where "map_of d a = Some xs" and "map_of d b = Some ys"
    and "collect (map (\<lambda>(x, y). truediv x y) (zip xs (map replace_zero ys))) = Inr vs"
  using assms
  by (auto simp: ratio_def getitem_def split: option.splits sum.splits)

lemma ratio_row:
  assumes "ratio d a b = Inr vs" and "wf_frame d"
  shows "length vs = nrows d"
    and "i < nrows d \<Longrightarrow> \<exists>x y. row_at d i a = Some (Number x) \<and> row_at d i b = Some (Number y) \<and>
           vs ! i = Number (spec_ratio x y)"
proof -
  from assms(1) obtain xs ys where xs: "map_of d a = Some xs" and ys: "map_of d b = Some ys"
    and c: "collect (map (\<lambda>(x, y). truediv x y) (zip xs (map replace_zero ys))) = Inr vs"
    by (rule ratio_parts)
  have lx: "length xs = nrows d" and ly: "length ys = nrows d"
    using wf_frame_length [OF assms(2)] xs ys by simp_all
  show "length vs = nrows d" using collect_map_length [OF c] lx ly by simp
  assume i: "i < nrows d"
  then have "i < length (zip xs (map replace_zero ys))" using lx ly by simp
  from collect_map_nth [OF c this] i lx ly
  have "truediv (xs ! i) (replace_zero (ys ! i)) = Inr (vs ! i)" by simp
  from truediv_replace_zero [OF this] show "\<exists>x y. row_at d i a = Some (Number x) \<and>
      row_at d i b = Some (Number y) \<and> vs ! i = Number (spec_ratio x y)"
    by (auto simp: row_at_def xs ys)
qed

lemma add_features_parts:
  assumes "add_features df = Inr out"
  obtains v1 v2 v3 where "ratio df ''GDP'' ''Population'' = Inr v1"
    and "ratio (setitem df ''GDP_per_capita'' v1) ''under-five deaths'' ''infant deaths'' = Inr v2"
    and "ratio (setitem (setitem df ''GDP_per_capita'' v1) ''Child_mortality_ratio'' v2)
           ''Total expenditure'' ''GDP'' = Inr v3"
    and "out = setitem (setitem (setitem df ''GDP_per_capita'' v1) ''Child_mortality_ratio'' v2)
                 ''Health_expenditure_per_GDP'' v3"
  using assms by (auto simp: add_features_def Let_def split: sum.splits)

lemma add_features_rows:
  assumes "add_features df = Inr out" and "wf_frame df" and "i < nrows df"
  shows "\<exists>g p u f t.
           row_at df i ''GDP'' = Some (Number g) \<and> row_at df i ''Population'' = Some (Number p) \<and>
           row_at df i ''under-five deaths'' = Some (Number u) \<and>
           row_at df i ''infant deaths'' = Some (Number f) \<and>
           row_at df i ''Total expenditure'' = Some (Number t) \<and>
           row_at out i = (row_at df i)
             (''GDP_per_capita'' \<mapsto> Number (spec_ratio g p),
              ''Child_mortality_ratio'' \<mapsto> Number (spec_ratio u f),
              ''Health_expenditure_per_GDP'' \<mapsto> Number (spec_ratio t g))"
proof -
  from assms(1) obtain v1 v2 v3 where
    1: "ratio df ''GDP'' ''Population'' = Inr v1"
    and 2: "ratio (setitem df ''GDP_per_capita'' v1) ''under-five deaths'' ''infant deaths'' = Inr v2"
    and 3: "ratio (setitem (setitem df ''GDP_per_capita'' v1) ''Child_mortality_ratio'' v2)
           ''Total expenditure'' ''GDP'' = Inr v3"
    and out: "out = setitem (setitem (setitem df ''GDP_per_capita'' v1) ''Child_mortality_ratio'' v2)
                 ''Health_expenditure_per_GDP'' v3"
    by (rule add_features_parts)
  let ?d1 = "setitem df ''GDP_per_capita'' v1"
  let ?d2 = "setitem ?d1 ''Child_mortality_ratio'' v2"
  have l1: "length v1 = nrows df" using ratio_row(1) [OF 1 assms(2)] .
  have wf1: "wf_frame ?d1" and n1: "nrows ?d1 = nrows df"
    using wf_frame_setitem [OF assms(2) l1] nrows_setitem [OF l1] by simp_all
  have l2: "length v2 = nrows ?d1" using ratio_row(1) [OF 2 wf1] .
  have wf2: "wf_frame ?d2" and n2: "nrows ?d2 = nrows df"
    using wf_frame_setitem [OF wf1 l2] nrows_setitem [OF l2] n1 by simp_all
  from ratio_row(2) [OF 1 assms(2) assms(3)] obtain g p where
    g: "row_at df i ''GDP'' = Some (Number g)" and p: "row_at df i ''Population'' = Some (Number p)"
    and e1: "v1 ! i = Number (spec_ratio g p)" by blast
  have i1: "i < nrows ?d1" and i2: "i < nrows ?d2" using assms(3) n1 n2 by simp_all
  from ratio_row(2) [OF 2 wf1 i1] obtain u f where
    u: "row_at ?d1 i ''under-five deaths'' = Some (Number u)"
    and f: "row_at ?d1 i ''infant deaths'' = Some (Number f)"
    and e2: "v2 ! i = Number (spec_ratio u f)" by blast
  from ratio_row(2) [OF 3 wf2 i2] obtain t g' where
    t: "row_at ?d2 i ''Total expenditure'' = Some (Number t)"
    and g': "row_at ?d2 i ''GDP'' = Some (Number g')"
    and e3: "v3 ! i = Number (spec_ratio t g')" by blast
  have "g' = g" using g g' by (simp add: row_at_setitem)
  then show ?thesis
    using g p u f t e1 e2 e3 by (auto simp: out row_at_setitem)
qed

section \<open>Selecting rows commutes with the stages\<close>

lemma map_of_select_rows:
  "map_of (select_rows is d) c = map_option (\<lambda>xs. map (\<lambda>i. xs ! i) is) (map_of d c)"
  by (induction d) (auto simp: select_rows_def)

lemma columns_select_rows: "columns (select_rows is d) = columns d"
  by (simp add: select_rows_def columns_def comp_def)

lemma nrows_select_rows: "d \<noteq> [] \<Longrightarrow> nrows (select_rows is d) = length is"
  by (cases d) (auto simp: select_rows_def nrows_def)

lemma select_rows_Nil: "select_rows is [] = []"
  by (simp add: select_rows_def)

lemma nrows_Nil: "nrows [] = 0"
  by (simp add: nrows_def)

lemma row_at_select_rows: "j < length is \<Longrightarrow> row_at (select_rows is d) j = row_at d (is ! j)"
  by (auto simp: row_at_def map_of_select_rows map_option_case split: option.splits)

lemma setitem_select_rows:
  "setitem (select_rows is d) c (map (\<lambda>i. xs ! i) is) = select_rows is (setitem d c xs)"
  by (induction d) (auto simp: setitem_def select_rows_def)

lemma wf_frame_select_rows: "wf_frame d \<Longrightarrow> wf_frame (select_rows is d)"
  by (cases d) (auto simp: wf_frame_def select_rows_def nrows_def list_all_iff comp_def)

lemma collect_select:
  assumes "collect (map f zs) = Inr vs" and "\<forall>i\<in>set is. i < length zs"
  shows "collect (map f (map (\<lambda>i. zs ! i) is)) = Inr (map (\<lambda>i. vs ! i) is)"
proof -
  have "f (zs ! i) = Inr (vs ! i)" if "i \<in> set is" for i
    using collect_map_nth [OF assms(1)] assms(2) that by blast
  then have "map f (map (\<lambda>i. zs ! i) is) = map Inr (map (\<lambda>i. vs ! i) is)" by simp
  then show ?thesis by (simp only: collect_Inr_iff)
qed

lemma map_nth_select: "map (\<lambda>j. g (is ! j)) [0..<length is] = map g is"
proof -
  have "map (\<lambda>j. g (is ! j)) [0..<length is] = map g (map (\<lambda>j. is ! j) [0..<length is])"
    by (simp add: comp_def)
  also have "\<dots> = map g is" by (simp only: map_nth)
  finally show ?thesis .
qed

lemma impute_col_select:
  assumes "impute_col s md c d = Inr d'" and "\<forall>i\<in>set is. i < nrows d"
  shows "impute_col s md c (select_rows is d) = Inr (select_rows is d')"
proof (cases "d = []")
  case True
  then have "is = []" using assms(2) by (cases "is") (auto simp: nrows_def)
  then show ?thesis using assms(1) True
    by (auto simp: impute_col_def select_rows_def nrows_def setitem_def)
next
  case False
  from assms(1) obtain vs where
    vs: "collect (map (\<lambda>i. fill_value s md c (row_at d i)) [0..<nrows d]) = Inr vs"
    and d': "d' = setitem d c vs"
    by (auto simp: impute_col_def split: sum.splits)
  have b: "\<forall>i\<in>set is. i < length [0..<nrows d]" using assms(2) by simp
  have "map (\<lambda>j. fill_value s md c (row_at (select_rows is d) j)) [0..<length is]
        = map (\<lambda>j. fill_value s md c (row_at d (is ! j))) [0..<length is]"
    by (simp add: row_at_select_rows)
  also have "\<dots> = map (\<lambda>i. fill_value s md c (row_at d i)) is"
    by (rule map_nth_select)
  also have "\<dots> = map (\<lambda>i. fill_value s md c (row_at d i)) (map (\<lambda>i. [0..<nrows d] ! i) is)"
    using assms(2) by simp
  finally have "collect (map (\<lambda>j. fill_value s md c (row_at (select_rows is d) j)) [0..<length is])
        = Inr (map (\<lambda>i. vs ! i) is)"
    using collect_select [OF vs b] by simp
  then show ?thesis
    by (simp add: impute_col_def nrows_select_rows [OF False] d' setitem_select_rows)
qed

lemma impute_select:
  "impute ms md d = Inr d' \<Longrightarrow> \<forall>i\<in>set is. i < nrows d \<Longrightarrow>
     impute ms md (select_rows is d) = Inr (select_rows is d')"
proof (induction ms arbitrary: d)
  case Nil
  then show ?case by simp
next
  case (Cons p ms)
  obtain c s where p: "p = (c, s)" by (cases p)
  from Cons.prems(1) obtain d1 where 1: "impute_col s md c d = Inr d1" and 2: "impute ms md d1 = Inr d'"
    by (auto simp: p split: sum.splits)
  have "\<forall>i\<in>set is. i < nrows d1" using impute_col_shape(1) [OF 1] Cons.prems(2) by simp
  from Cons.IH [OF 2 this] impute_col_select [OF 1 Cons.prems(2)]
  show ?case by (simp add: p)
qed

lemma map_select: "\<forall>i\<in>set is. i < length xs \<Longrightarrow>
    map f (map (\<lambda>i. xs ! i) is) = map (\<lambda>i. map f xs ! i) is"
  by simp

lemma transform_select:
  assumes "transform st d = Inr d'" and "wf_frame d" and "\<forall>i\<in>set is. i < nrows d"
  shows "transform st (select_rows is d) = Inr (select_rows is d')"
proof -
  from assms(1) obtain d1 xs where
    1: "impute (means_by_country st) (global_medians st) d = Inr d1"
    and 2: "map_of d1 ''Status'' = Some xs"
    and 3: "d' = setitem d1 ''Status'' (map encode_status xs)"
    by (rule transform_parts)
  have wf1: "wf_frame d1" and n1: "nrows d1 = nrows d"
    using impute_shape [OF 1] assms(2) by simp_all
  have len: "length xs = nrows d" using wf_frame_length [OF wf1 2] n1 by simp
  have b: "\<forall>i\<in>set is. i < length xs" using assms(3) len by simp
  have "select_rows is d' =
        setitem (select_rows is d1) ''Status'' (map encode_status (map (\<lambda>i. xs ! i) is))"
    unfolding 3 map_select [OF b] by (simp only: setitem_select_rows)
  then show ?thesis
    using impute_select [OF 1 assms(3)] 2
    by (simp add: transform_def getitem_def map_of_select_rows)
qed

lemma zip_select:
  "\<forall>i\<in>set is. i < length xs \<and> i < length ys \<Longrightarrow>
     zip (map (\<lambda>i. xs ! i) is) (map (\<lambda>i. ys ! i) is) = map (\<lambda>i. zip xs ys ! i) is"
  by (induction "is") auto

lemma ratio_select:
  assumes "ratio d a b = Inr vs" and "wf_frame d" and "\<forall>i\<in>set is. i < nrows d"
  shows "ratio (select_rows is d) a b = Inr (map (\<lambda>i. vs ! i) is)"
proof -
  from assms(1) obtain xs ys where xs: "map_of d a = Some xs" and ys: "map_of d b = Some ys"
    and c: "collect (map (\<lambda>(x, y). truediv x y) (zip xs (map replace_zero ys))) = Inr vs"
    by (rule ratio_parts)
  have lx: "length xs = nrows d" and ly: "length ys = nrows d"
    using wf_frame_length [OF assms(2)] xs ys by simp_all
  have by': "\<forall>i\<in>set is. i < length ys" using assms(3) ly by simp
  have bz: "\<forall>i\<in>set is. i < length xs \<and> i < length (map replace_zero ys)"
    using assms(3) lx ly by simp
  have bl: "\<forall>i\<in>set is. i < length (zip xs (map replace_zero ys))"
    using assms(3) lx ly by simp
  have "zip (map (\<lambda>i. xs ! i) is) (map replace_zero (map (\<lambda>i. ys ! i) is))
        = map (\<lambda>i. zip xs (map replace_zero ys) ! i) is"
    unfolding map_select [OF by'] using bz by (rule zip_select)
  then show ?thesis
    using collect_select [OF c bl]
    by (simp add: ratio_def getitem_def map_of_select_rows xs ys)
qed

lemma add_features_select:
  assumes "add_features df = Inr out" and "wf_frame df" and "\<forall>i\<in>set is. i < nrows df"
  shows "add_features (select_rows is df) = Inr (select_rows is out)"
proof -
  from assms(1) obtain v1 v2 v3 where
    1: "ratio df ''GDP'' ''Population'' = Inr v1"
    and 2: "ratio (setitem df ''GDP_per_capita'' v1) ''under-five deaths'' ''infant deaths'' = Inr v2"
    and 3: "ratio (setitem (setitem df ''GDP_per_capita'' v1) ''Child_mortality_ratio'' v2)
           ''Total expenditure'' ''GDP'' = Inr v3"
    and out: "out = setitem (setitem (setitem df ''GDP_per_capita'' v1) ''Child_mortality_ratio'' v2)
                 ''Health_expenditure_per_GDP'' v3"
    by (rule add_features_parts)
  let ?d1 = "setitem df ''GDP_per_capita'' v1"
  let ?d2 = "setitem ?d1 ''Child_mortality_ratio'' v2"
  have l1: "length v1 = nrows df" using ratio_row(1) [OF 1 assms(2)] .
  have wf1: "wf_frame ?d1" and n1: "nrows ?d1 = nrows df"
    using wf_frame_setitem [OF assms(2) l1] nrows_setitem [OF l1] by simp_all
  have l2: "length v2 = nrows ?d1" using ratio_row(1) [OF 2 wf1] .
  have wf2: "wf_frame ?d2" and n2: "nrows ?d2 = nrows df"
    using wf_frame_setitem [OF wf1 l2] nrows_setitem [OF l2] n1 by simp_all
  have b1: "\<forall>i\<in>set is. i < nrows ?d1" and b2: "\<forall>i\<in>set is. i < nrows ?d2"
    using assms(3) n1 n2 by simp_all
  note r1 = ratio_select [OF 1 assms(2,3)]
  note r2 = ratio_select [OF 2 wf1 b1]
  note r3 = ratio_select [OF 3 wf2 b2]
  show ?thesis
    unfolding out
    by (simp add: add_features_def Let_def r1 r2 r3 setitem_select_rows)
qed

lemma drop_column_select:
  "drop_column d c = Inr d' \<Longrightarrow> drop_column (select_rows is d) c = Inr (select_rows is d')"
  by (auto simp: drop_column_def columns_def select_rows_def filter_map comp_def
      split: if_splits)

section \<open>Feature synthesis on frames of the schema\<close>

lemma collect_returns:
  "(\<forall>z\<in>set zs. \<exists>v. f z = Inr v) \<Longrightarrow> \<exists>vs. collect (map f zs) = Inr vs"
proof (induction zs)
  case Nil
  then show ?case by simp
next
  case (Cons z zs)
  then obtain v vs where "f z = Inr v" and "collect (map f zs) = Inr vs" by auto
  then show ?case by simp
qed

lemma truediv_returns: "is_number x \<Longrightarrow> is_number y \<Longrightarrow> \<exists>v. truediv x (replace_zero y) = Inr v"
  by (cases x; cases y) (auto simp: truediv_def replace_zero_def is_number_def)

lemma ratio_returns:
  assumes "numeric_column d a" and "numeric_column d b"
  shows "\<exists>vs. ratio d a b = Inr vs"
proof -
  from assms obtain xs ys where xs: "map_of d a = Some xs" "list_all is_number xs"
    and ys: "map_of d b = Some ys" "list_all is_number ys"
    by (auto simp: numeric_column_def split: option.splits)
  have "\<exists>v. (\<lambda>(x, y). truediv x y) z = Inr v" if "z \<in> set (zip xs (map replace_zero ys))" for z
  proof -
    obtain x y' where z: "z = (x, y')" by (cases z)
    then have "x \<in> set xs" and "y' \<in> set (map replace_zero ys)"
      using that by (auto dest: set_zip_leftD set_zip_rightD)
    then obtain y where "y \<in> set ys" and "y' = replace_zero y" by auto
    then show ?thesis
      using truediv_returns [of x y] xs(2) ys(2) \<open>x \<in> set xs\<close> z by (auto simp: list_all_iff)
  qed
  then have "\<exists>vs. collect (map (\<lambda>(x, y). truediv x y) (zip xs (map replace_zero ys))) = Inr vs"
    by (intro collect_returns) blast
  then show ?thesis by (simp add: ratio_def getitem_def xs ys)
qed

lemma numeric_column_setitem:
  "c \<noteq> c' \<Longrightarrow> numeric_column (setitem d c' v) c = numeric_column d c"
  by (simp add: numeric_column_def map_of_setitem)

lemma add_features_returns:
  assumes "numeric_column df ''GDP''" and "numeric_column df ''Population''"
    and "numeric_column df ''under-five deaths''" and "numeric_column df ''infant deaths''"
    and "numeric_column df ''Total expenditure''"
  shows "\<exists>out. add_features df = Inr out"
proof -
  from ratio_returns [OF assms(1,2)] obtain v1 where
    1: "ratio df ''GDP'' ''Population'' = Inr v1" by blast
  let ?d1 = "setitem df ''GDP_per_capita'' v1"
  have "numeric_column ?d1 ''under-five deaths''" and "numeric_column ?d1 ''infant deaths''"
    using assms(3,4) by (simp_all add: numeric_column_setitem)
  from ratio_returns [OF this] obtain v2 where
    2: "ratio ?d1 ''under-five deaths'' ''infant deaths'' = Inr v2" by blast
  let ?d2 = "setitem ?d1 ''Child_mortality_ratio'' v2"
  have "numeric_column ?d2 ''Total expenditure''" and "numeric_column ?d2 ''GDP''"
    using assms(5,1) by (simp_all add: numeric_column_setitem)
  from ratio_returns [OF this] obtain v3 where
    3: "ratio ?d2 ''Total expenditure'' ''GDP'' = Inr v3" by blast
  show ?thesis by (simp add: add_features_def Let_def 1 2 3)
qed

lemma add_features_shape:
  assumes "add_features df = Inr out" and "wf_frame df"
  shows "wf_frame out" and "nrows out = nrows df"
    and "map_of out ''Health_expenditure_per_GDP'' \<noteq> None"
    and "c \<notin> {''GDP_per_capita'', ''Child_mortality_ratio'', ''Health_expenditure_per_GDP''}
         \<Longrightarrow> map_of out c = map_of df c"
proof -
  from assms(1) obtain v1 v2 v3 where
    1: "ratio df ''GDP'' ''Population'' = Inr v1"
    and 2: "ratio (setitem df ''GDP_per_capita'' v1) ''under-five deaths'' ''infant deaths'' = Inr v2"
    and 3: "ratio (setitem (setitem df ''GDP_per_capita'' v1) ''Child_mortality_ratio'' v2)
           ''Total expenditure'' ''GDP'' = Inr v3"
    and out: "out = setitem (setitem (setitem df ''GDP_per_capita'' v1) ''Child_mortality_ratio'' v2)
                 ''Health_expenditure_per_GDP'' v3"
    by (rule add_features_parts)
  let ?d1 = "setitem df ''GDP_per_capita'' v1"
  let ?d2 = "setitem ?d1 ''Child_mortality_ratio'' v2"
  have l1: "length v1 = nrows df" using ratio_row(1) [OF 1 assms(2)] .
  have wf1: "wf_frame ?d1" and n1: "nrows ?d1 = nrows df"
    using wf_frame_setitem [OF assms(2) l1] nrows_setitem [OF l1] by simp_all
  have l2: "length v2 = nrows ?d1" using ratio_row(1) [OF 2 wf1] .
  have wf2: "wf_frame ?d2" and n2: "nrows ?d2 = nrows df"
    using wf_frame_setitem [OF wf1 l2] nrows_setitem [OF l2] n1 by simp_all
  have l3: "length v3 = nrows ?d2" using ratio_row(1) [OF 3 wf2] .
  show "wf_frame out" unfolding out using wf2 l3 by (rule wf_frame_setitem)
  show "nrows out = nrows df" unfolding out using nrows_setitem [OF l3] n2 by simp
  show "map_of out ''Health_expenditure_per_GDP'' \<noteq> None" by (simp add: out map_of_setitem)
  show "map_of out c = map_of df c"
    if "c \<notin> {''GDP_per_capita'', ''Child_mortality_ratio'', ''Health_expenditure_per_GDP''}"
    using that by (simp add: out map_of_setitem)
qed

lemma add_features_columns:
  assumes "add_features df = Inr out"
    and "''GDP_per_capita'' \<notin> set (columns df)" and "''Child_mortality_ratio'' \<notin> set (columns df)"
    and "''Health_expenditure_per_GDP'' \<notin> set (columns df)"
  shows "columns out = columns df @
           [''GDP_per_capita'', ''Child_mortality_ratio'', ''Health_expenditure_per_GDP'']"
proof -
  from assms(1) obtain v1 v2 v3 where
    out: "out = setitem (setitem (setitem df ''GDP_per_capita'' v1) ''Child_mortality_ratio'' v2)
                 ''Health_expenditure_per_GDP'' v3"
    by (rule add_features_parts)
  show ?thesis using assms(2,3,4) by (simp add: out columns_setitem)
qed

section \<open>From the test set to the submission\<close>

lemma transform_keep:
  assumes "transform st d = Inr d'" and "i < nrows d" and "row_at d i c = Some v"
    and "\<not> isna v" and "c \<noteq> ''Status''"
  shows "row_at d' i c = Some v"
proof -
  from assms(1) obtain d1 xs where
    1: "impute (means_by_country st) (global_medians st) d = Inr d1"
    and 3: "d' = setitem d1 ''Status'' (map encode_status xs)"
    by (rule transform_parts)
  have "row_at d' i c = row_at d1 i c" using assms(5) by (simp add: 3 row_at_setitem)
  then show ?thesis using impute_keep [OF 1 assms(2,3,4)] by simp
qed

lemma map_of_drop_column:
  "drop_column d c = Inr d' \<Longrightarrow> map_of d' c' = (if c' = c then None else map_of d c')"
proof -
  have "map_of (filter (\<lambda>p. fst p \<noteq> c) d) c' = (if c' = c then None else map_of d c')"
    by (induction d) auto
  moreover assume "drop_column d c = Inr d'"
  ultimately show ?thesis by (auto simp: drop_column_def split: if_splits)
qed

lemma drop_column_shape:
  assumes "drop_column d c = Inr d'" and "wf_frame d"
  shows "wf_frame d'" and "d' \<noteq> [] \<Longrightarrow> nrows d' = nrows d"
proof -
  have d': "d' = filter (\<lambda>p. fst p \<noteq> c) d"
    using assms(1) by (auto simp: drop_column_def split: if_splits)
  have all: "\<forall>p\<in>set d. length (snd p) = nrows d"
    using assms(2) by (auto simp: wf_frame_def list_all_iff)
  show n: "nrows d' = nrows d" if "d' \<noteq> []"
  proof -
    from that obtain p ps where p: "d' = p # ps" by (cases d') auto
    moreover have "set d' \<subseteq> set d" using d' by auto
    ultimately have "p \<in> set d" by auto
    then have "length (snd p) = nrows d" using all by blast
    moreover have "nrows d' = length (snd p)" by (cases p) (simp add: p nrows_def)
    ultimately show ?thesis by simp
  qed
  show "wf_frame d'"
  proof (cases "d' = []")
    case True
    then show ?thesis by (simp add: wf_frame_def)
  next
    case False
    have "distinct (map fst d')" using assms(2) by (simp add: d' wf_frame_def distinct_map_filter)
    moreover have "\<forall>p\<in>set d'. length (snd p) = nrows d'" using all n [OF False] d' by auto
    ultimately show ?thesis by (auto simp: wf_frame_def list_all_iff)
  qed
qed

lemma prepare_parts:
  assumes "prepare st d = Inr X"
  obtains d1 d2 where "transform st d = Inr d1" and "add_features d1 = Inr d2"
    and "drop_column d2 ''Country'' = Inr X"
  using assms by (auto simp: prepare_def split: sum.splits)

lemma prepare_shape:
  assumes "prepare st d = Inr X" and "wf_frame d"
  shows "wf_frame X" and "nrows X = nrows d" and "X \<noteq> []"
proof -
  from assms(1) obtain d1 d2 where 1: "transform st d = Inr d1" and 2: "add_features d1 = Inr d2"
    and 3: "drop_column d2 ''Country'' = Inr X"
    by (rule prepare_parts)
  have wf1: "wf_frame d1" and n1: "nrows d1 = nrows d"
    using transform_shape [OF 1 assms(2)] by simp_all
  have wf2: "wf_frame d2" and n2: "nrows d2 = nrows d"
    using add_features_shape(1,2) [OF 2 wf1] n1 by simp_all
  have "map_of X ''Health_expenditure_per_GDP'' \<noteq> None"
    using add_features_shape(3) [OF 2 wf1] by (simp add: map_of_drop_column [OF 3])
  then show ne: "X \<noteq> []" by auto
  show "wf_frame X" using drop_column_shape(1) [OF 3 wf2] .
  show "nrows X = nrows d" using drop_column_shape(2) [OF 3 wf2 ne] n2 by simp
qed

lemma prepare_select:
  assumes "prepare st d = Inr X" and "wf_frame d" and "\<forall>i\<in>set is. i < nrows d"
  shows "prepare st (select_rows is d) = Inr (select_rows is X)"
proof -
  from assms(1) obtain d1 d2 where 1: "transform st d = Inr d1" and 2: "add_features d1 = Inr d2"
    and 3: "drop_column d2 ''Country'' = Inr X"
    by (rule prepare_parts)
  have wf1: "wf_frame d1" and n1: "nrows d1 = nrows d"
    using transform_shape [OF 1 assms(2)] by simp_all
  have b1: "\<forall>i\<in>set is. i < nrows d1" using assms(3) n1 by simp
  show ?thesis
    using transform_select [OF 1 assms(2,3)] add_features_select [OF 2 wf1 b1]
      drop_column_select [OF 3]
    by (simp add: prepare_def)
qed

lemma length_to_rows: "length (to_rows X) = nrows X"
  by (simp add: to_rows_def)

lemma to_rows_select:
  assumes "X \<noteq> []" and "\<forall>i\<in>set is. i < nrows X"
  shows "to_rows (select_rows is X) = map (\<lambda>i. to_rows X ! i) is"
proof -
  have "map (\<lambda>p. snd p ! j) (select_rows is X) = to_rows X ! (is ! j)" if "j < length is" for j
  proof -
    have "is ! j < nrows X" using assms(2) that by simp
    then show ?thesis using that by (simp add: to_rows_def select_rows_def comp_def)
  qed
  then have "to_rows (select_rows is X) = map (\<lambda>j. to_rows X ! (is ! j)) [0..<length is]"
    by (simp add: to_rows_def nrows_select_rows [OF assms(1)])
  then show ?thesis by (simp only: map_nth_select)
qed

lemma row_at_in_to_rows:
  assumes "row_at X i c = Some v" and "i < nrows X"
  shows "v \<in> set (to_rows X ! i)"
proof -
  from assms(1) obtain xs where "map_of X c = Some xs" and v: "v = xs ! i"
    by (auto simp: row_at_def)
  then have "(c, xs) \<in> set X" by (auto dest: map_of_SomeD)
  then have "xs ! i \<in> (\<lambda>p. snd p ! i) ` set X" by force
  then show ?thesis using assms(2) v by (simp add: to_rows_def)
qed

lemma submission_parts:
  assumes "submission scale predict st d = Inr preds"
  obtains X M where "prepare st d = Inr X" and "collect (map scale (to_rows X)) = Inr M"
    and "preds = map (\<lambda>r. Number (predict r)) M"
  using assms by (auto simp: submission_def split: sum.splits)

lemma submission_select:
  assumes "submission scale predict st d = Inr preds" and "wf_frame d"
    and "\<forall>i\<in>set is. i < nrows d"
  shows "submission scale predict st (select_rows is d) = Inr (map (\<lambda>i. preds ! i) is)"
proof -
  from assms(1) obtain X M where 1: "prepare st d = Inr X"
    and 2: "collect (map scale (to_rows X)) = Inr M"
    and 3: "preds = map (\<lambda>r. Number (predict r)) M"
    by (rule submission_parts)
  have ne: "X \<noteq> []" and n: "nrows X = nrows d" using prepare_shape [OF 1 assms(2)] by simp_all
  have b: "\<forall>i\<in>set is. i < nrows X" using assms(3) n by simp
  have bl: "\<forall>i\<in>set is. i < length (to_rows X)" using b by (simp add: length_to_rows)
  have lm: "length M = nrows X" using collect_map_length [OF 2] by (simp add: length_to_rows)
  have bm: "\<forall>i\<in>set is. i < length M" using b lm by simp
  have "map (\<lambda>r. Number (predict r)) (map (\<lambda>i. M ! i) is) = map (\<lambda>i. preds ! i) is"
    unfolding 3 using bm by simp
  then show ?thesis
    using prepare_select [OF 1 assms(2,3)] collect_select [OF 2 bl]
    by (simp add: submission_def to_rows_select [OF ne b])
qed

lemma submission_length:
  assumes "submission scale predict st d = Inr preds" and "wf_frame d"
  shows "length preds = nrows d"
proof -
  from assms(1) obtain X M where 1: "prepare st d = Inr X"
    and 2: "collect (map scale (to_rows X)) = Inr M"
    and 3: "preds = map (\<lambda>r. Number (predict r)) M"
    by (rule submission_parts)
  show ?thesis
    using collect_map_length [OF 2] prepare_shape(2) [OF 1 assms(2)]
    by (simp add: 3 length_to_rows)
qed

section \<open>When transform returns\<close>

lemma fill_value_returns:
  "row c \<noteq> None \<Longrightarrow> row ''Country'' \<noteq> None \<Longrightarrow> map_of md c \<noteq> None
   \<Longrightarrow> \<exists>v. fill_value s md c row = Inr v"
  by (auto simp: fill_value_def split: option.splits)

lemma impute_col_returns:
  assumes "nrows d = 0 \<or> (map_of d c \<noteq> None \<and> map_of d ''Country'' \<noteq> None \<and> map_of md c \<noteq> None)"
  shows "\<exists>d'. impute_col s md c d = Inr d'"
proof -
  have "\<forall>i\<in>set [0..<nrows d]. \<exists>v. fill_value s md c (row_at d i) = Inr v"
    using assms by (auto simp: row_at_def intro!: fill_value_returns)
  from collect_returns [OF this] show ?thesis by (auto simp: impute_col_def)
qed

lemma impute_returns:
  "nrows d = 0 \<or> (map_of d ''Country'' \<noteq> None \<and>
      (\<forall>p\<in>set ms. map_of d (fst p) \<noteq> None \<and> map_of md (fst p) \<noteq> None))
   \<Longrightarrow> \<exists>d'. impute ms md d = Inr d'"
proof (induction ms arbitrary: d)
  case Nil
  then show ?case by simp
next
  case (Cons p ms)
  obtain c s where p: "p = (c, s)" by (cases p)
  have "nrows d = 0 \<or> (map_of d c \<noteq> None \<and> map_of d ''Country'' \<noteq> None \<and> map_of md c \<noteq> None)"
    using Cons.prems p by auto
  from impute_col_returns [OF this] obtain d1 where 1: "impute_col s md c d = Inr d1" by blast
  have n1: "nrows d1 = nrows d" using impute_col_shape(1) [OF 1] .
  have keep: "map_of d1 c' \<noteq> None" if "map_of d c' \<noteq> None" for c'
    using impute_col_shape(3) [OF 1, of c'] that 1
    by (cases "c' = c") (auto simp: impute_col_def map_of_setitem split: sum.splits)
  have "nrows d1 = 0 \<or> (map_of d1 ''Country'' \<noteq> None \<and>
      (\<forall>p\<in>set ms. map_of d1 (fst p) \<noteq> None \<and> map_of md (fst p) \<noteq> None))"
    using Cons.prems n1 keep by auto
  from Cons.IH [OF this] 1 show ?case by (auto simp: p)
qed

lemma impute_col_dom:
  assumes "impute_col s md c d = Inr d'" and "map_of d c' \<noteq> None"
  shows "map_of d' c' \<noteq> None"
  using assms by (auto simp: impute_col_def map_of_setitem split: sum.splits)

lemma impute_dom:
  "impute ms md d = Inr d' \<Longrightarrow> map_of d c \<noteq> None \<Longrightarrow> map_of d' c \<noteq> None"
proof (induction ms arbitrary: d)
  case Nil
  then show ?case by simp
next
  case (Cons p ms)
  obtain c1 s where p: "p = (c1, s)" by (cases p)
  from Cons.prems(1) obtain d1 where 1: "impute_col s md c1 d = Inr d1" and 2: "impute ms md d1 = Inr d'"
    by (auto simp: p split: sum.splits)
  show ?case using Cons.IH [OF 2 impute_col_dom [OF 1 Cons.prems(2)]] .
qed

lemma impute_needs_columns:
  "impute ms md d = Inr d' \<Longrightarrow> 0 < nrows d \<Longrightarrow> \<forall>p\<in>set ms. map_of d (fst p) \<noteq> None"
proof (induction ms arbitrary: d)
  case Nil
  then show ?case by simp
next
  case (Cons p ms)
  obtain c s where p: "p = (c, s)" by (cases p)
  from Cons.prems(1) obtain d1 where 1: "impute_col s md c d = Inr d1" and 2: "impute ms md d1 = Inr d'"
    by (auto simp: p split: sum.splits)
  from impute_col_row [OF 1 Cons.prems(2)] obtain v where
    "fill_value s md c (row_at d 0) = Inr v" by blast
  then have c: "map_of d c \<noteq> None"
    by (auto simp: fill_value_def row_at_def split: option.splits)
  have n1: "0 < nrows d1" using impute_col_shape(1) [OF 1] Cons.prems(2) by simp
  have "map_of d c' \<noteq> None" if "map_of d1 c' \<noteq> None" for c'
    using impute_col_shape(3) [OF 1, of c'] that c by (cases "c' = c") auto
  then show ?case using Cons.IH [OF 2 n1] c p by auto
qed

lemma transform_again_returns:
  assumes "wf_state st" and "wf_frame d" and "''Country'' \<in> set (columns d)"
    and "transform st d = Inr d1"
  shows "\<exists>d2. transform st d1 = Inr d2"
proof -
  from assms(4) obtain d0 xs where
    1: "impute (means_by_country st) (global_medians st) d = Inr d0"
    and 3: "d1 = setitem d0 ''Status'' (map encode_status xs)"
    by (rule transform_parts)
  have n1: "nrows d1 = nrows d" using transform_shape(2) [OF assms(4,2)] .
  have dom1: "map_of d1 c \<noteq> None" if "map_of d c \<noteq> None" for c
    using impute_dom [OF 1 that] by (simp add: 3 map_of_setitem)
  have country: "map_of d ''Country'' \<noteq> None"
    using assms(3) by (auto simp: columns_def map_of_eq_None_iff)
  have med: "\<forall>p\<in>set (means_by_country st). map_of (global_medians st) (fst p) \<noteq> None"
    using assms(1) by (simp add: wf_state_def list_all_iff)
  have "nrows d1 = 0 \<or> (map_of d1 ''Country'' \<noteq> None \<and>
      (\<forall>p\<in>set (means_by_country st).
         map_of d1 (fst p) \<noteq> None \<and> map_of (global_medians st) (fst p) \<noteq> None))"
  proof (cases "nrows d = 0")
    case True
    then show ?thesis using n1 by simp
  next
    case False
    then have "\<forall>p\<in>set (means_by_country st). map_of d (fst p) \<noteq> None"
      using impute_needs_columns [OF 1] by simp
    then show ?thesis using dom1 country med by blast
  qed
  from impute_returns [OF this] obtain d3 where
    4: "impute (means_by_country st) (global_medians st) d1 = Inr d3" by blast
  have "map_of d1 ''Status'' \<noteq> None" by (simp add: 3 map_of_setitem)
  from impute_dom [OF 4 this] obtain ys where "map_of d3 ''Status'' = Some ys" by auto
  then show ?thesis using 4 by (simp add: transform_def getitem_def)
qed

section \<open>A call of transform and the object\<close>

lemma fill_value_call_state: "snd (fill_value_call col row self) = self"
  by (simp add: fill_value_call_def split: option.splits)

lemma rows_call_state: "snd (rows_call col rows self) = self"
proof (induction rows arbitrary: self)
  case Nil
  then show ?case by simp
next
  case (Cons row rows)
  obtain r self1 where 1: "fill_value_call col row self = (r, self1)"
    by (cases "fill_value_call col row self")
  then have s1: "self1 = self" using fill_value_call_state [of col row self] by simp
  obtain r2 self2 where 2: "rows_call col rows self1 = (r2, self2)"
    by (cases "rows_call col rows self1")
  then have "self2 = self1" using Cons.IH [of self1] by simp
  then show ?case using 1 2 s1 by (simp split: sum.splits)
qed

lemma impute_col_call_state: "snd (impute_col_call col d self) = self"
proof -
  obtain r self1 where 1: "rows_call col (map (row_at d) [0..<nrows d]) self = (r, self1)"
    by (cases "rows_call col (map (row_at d) [0..<nrows d]) self")
  then have "self1 = self"
    using rows_call_state [of col "map (row_at d) [0..<nrows d]" self] by simp
  then show ?thesis using 1 by (simp add: impute_col_call_def split: sum.splits)
qed

lemma impute_call_state: "snd (impute_call cols d self) = self"
proof (induction cols arbitrary: d self)
  case Nil
  then show ?case by simp
next
  case (Cons col cols)
  obtain r self1 where 1: "impute_col_call col d self = (r, self1)"
    by (cases "impute_col_call col d self")
  then have s1: "self1 = self" using impute_col_call_state [of col d self] by simp
  show ?case
  proof (cases r)
    case (Inl e)
    then show ?thesis using 1 s1 by simp
  next
    case (Inr d1)
    then show ?thesis using 1 s1 Cons.IH [of d1 self] by simp
  qed
qed

lemma transform_call_state: "snd (transform_call d self) = self"
proof -
  obtain r self1 where 1: "impute_call (map fst (means_by_country self)) d self = (r, self1)"
    by (cases "impute_call (map fst (means_by_country self)) d self")
  then have "self1 = self"
    using impute_call_state [of "map fst (means_by_country self)" d self] by simp
  then show ?thesis using 1 by (simp add: transform_call_def split: sum.splits)
qed

lemma fill_value_call_result:
  "map_of (means_by_country self) col = Some s \<Longrightarrow>
     fill_value_call col row self = (fill_value s (global_medians self) col row, self)"
  by (simp add: fill_value_call_def fill_value_def split: option.splits)

lemma rows_call_result:
  assumes "map_of (means_by_country self) col = Some s"
  shows "rows_call col rows self = (collect (map (fill_value s (global_medians self) col) rows), self)"
  by (induction rows) (simp_all add: fill_value_call_result [OF assms] split: sum.splits)

lemma impute_col_call_result:
  assumes "map_of (means_by_country self) col = Some s"
  shows "impute_col_call col d self = (impute_col s (global_medians self) col d, self)"
  by (simp add: impute_col_call_def impute_col_def rows_call_result [OF assms] comp_def
      split: sum.splits)

lemma impute_call_result:
  "\<forall>p\<in>set ms. map_of (means_by_country self) (fst p) = Some (snd p) \<Longrightarrow>
     impute_call (map fst ms) d self = (impute ms (global_medians self) d, self)"
proof (induction ms arbitrary: d)
  case Nil
  then show ?case by simp
next
  case (Cons p ms)
  obtain c s where p: "p = (c, s)" by (cases p)
  have 1: "impute_col_call c d self = (impute_col s (global_medians self) c d, self)"
    using Cons.prems p by (intro impute_col_call_result) simp
  show ?case using Cons.IH Cons.prems 1 by (simp add: p split: sum.splits)
qed

lemma transform_call_result:
  assumes "distinct (map fst (means_by_country self))"
  shows "transform_call d self = (transform self d, self)"
proof -
  have "\<forall>p\<in>set (means_by_country self). map_of (means_by_country self) (fst p) = Some (snd p)"
    using assms by simp
  from impute_call_result [OF this] show ?thesis
    by (simp add: transform_call_def transform_def split: sum.splits)
qed

section \<open>When transform raises\<close>

lemma columns_map_of: "c \<in> set (columns d) \<longleftrightarrow> map_of d c \<noteq> None"
  by (simp add: columns_def map_of_eq_None_iff)

lemma impute_col_present:
  assumes "impute_col s md c d = Inr d1" and "0 < nrows d"
  shows "map_of d c \<noteq> None" and "map_of d1 c' = None \<longleftrightarrow> map_of d c' = None"
proof -
  from impute_col_row [OF assms] obtain v where
    "fill_value s md c (row_at d 0) = Inr v" by blast
  then show c: "map_of d c \<noteq> None"
    by (auto simp: fill_value_def row_at_def split: option.splits)
  show "map_of d1 c' = None \<longleftrightarrow> map_of d c' = None"
    using impute_col_shape(3) [OF assms(1), of c'] impute_col_dom [OF assms(1) c] c
    by (cases "c' = c") auto
qed

lemma impute_col_error_absent:
  assumes "impute_col s md c d = Inl e" and "map_of md c \<noteq> None"
  shows "(e = KeyError c \<and> map_of d c = None) \<or> (e = KeyError ''Country'' \<and> map_of d ''Country'' = None)"
proof -
  from assms(1) have "collect (map (\<lambda>i. fill_value s md c (row_at d i)) [0..<nrows d]) = Inl e"
    by (auto simp: impute_col_def split: sum.splits)
  then obtain i where "fill_value s md c (row_at d i) = Inl e"
    by (auto dest!: collect_Inl)
  then show ?thesis using assms(2)
    by (auto simp: fill_value_def row_at_def split: option.splits if_splits)
qed

lemma impute_error_absent:
  "impute ms md d = Inl e \<Longrightarrow> 0 < nrows d \<Longrightarrow> \<forall>p\<in>set ms. map_of md (fst p) \<noteq> None \<Longrightarrow>
     \<exists>c. e = KeyError c \<and> map_of d c = None \<and> (c = ''Country'' \<or> c \<in> fst ` set ms)"
proof (induction ms arbitrary: d)
  case Nil
  then show ?case by simp
next
  case (Cons p ms)
  obtain c s where p: "p = (c, s)" by (cases p)
  have mdc: "map_of md c \<noteq> None" using Cons.prems(3) p by simp
  show ?case
  proof (cases "impute_col s md c d")
    case (Inl e1)
    then have "e1 = e" using Cons.prems(1) p by simp
    with impute_col_error_absent [OF Inl mdc] show ?thesis using p by auto
  next
    case (Inr d1)
    then have 2: "impute ms md d1 = Inl e" using Cons.prems(1) p by simp
    have n1: "0 < nrows d1" using impute_col_shape(1) [OF Inr] Cons.prems(2) by simp
    from Cons.IH [OF 2 n1] Cons.prems(3) obtain c' where
      "e = KeyError c'" "map_of d1 c' = None" "c' = ''Country'' \<or> c' \<in> fst ` set ms" by auto
    then show ?thesis using impute_col_present(2) [OF Inr Cons.prems(2), of c'] by auto
  qed
qed

lemma wf_state_medians:
  "wf_state st \<Longrightarrow> \<forall>p\<in>set (means_by_country st). map_of (global_medians st) (fst p) \<noteq> None"
  by (simp add: wf_state_def list_all_iff)

lemma transform_error_absent:
  assumes "transform st d = Inl e" and "wf_state st" and "0 < nrows d"
    and "''Status'' \<in> set (columns d)"
  shows "\<exists>c. e = KeyError c \<and> c \<notin> set (columns d) \<and>
           (c = ''Country'' \<or> c \<in> fst ` set (means_by_country st))"
proof (cases "impute (means_by_country st) (global_medians st) d")
  case (Inl e1)
  then have "e1 = e" using assms(1) by (simp add: transform_def)
  with impute_error_absent [OF Inl assms(3) wf_state_medians [OF assms(2)]]
  show ?thesis by (auto simp: columns_map_of)
next
  case (Inr d1)
  have "map_of d ''Status'' \<noteq> None" using assms(4) by (simp add: columns_map_of)
  from impute_dom [OF Inr this] have "\<exists>xs. getitem d1 ''Status'' = Inr xs"
    by (auto simp: getitem_def)
  then show ?thesis using assms(1) Inr by (auto simp: transform_def)
qed

lemma transform_returns:
  assumes "wf_state st" and "''Country'' \<in> set (columns d)" and "''Status'' \<in> set (columns d)"
    and "\<forall>p\<in>set (means_by_country st). fst p \<in> set (columns d)"
  shows "\<exists>d'. transform st d = Inr d'"
proof -
  have "nrows d = 0 \<or> (map_of d ''Country'' \<noteq> None \<and>
      (\<forall>p\<in>set (means_by_country st).
         map_of d (fst p) \<noteq> None \<and> map_of (global_medians st) (fst p) \<noteq> None))"
    using assms(2,4) wf_state_medians [OF assms(1)] by (simp add: columns_map_of)
  from impute_returns [OF this] obtain d1 where
    1: "impute (means_by_country st) (global_medians st) d = Inr d1" by blast
  have "map_of d ''Status'' \<noteq> None" using assms(3) by (simp add: columns_map_of)
  from impute_dom [OF 1 this] obtain xs where "map_of d1 ''Status'' = Some xs" by auto
  then show ?thesis using 1 by (simp add: transform_def getitem_def)
qed

section \<open>When the stages before the scaler return\<close>

lemma transform_numeric:
  assumes "transform st d = Inr d1" and "wf_frame d" and "wf_state st"
    and "numeric_column d c" and "c \<noteq> ''Status''"
  shows "numeric_column d1 c"
proof -
  from assms(1) obtain d0 xs0 where
    1: "impute (means_by_country st) (global_medians st) d = Inr d0"
    and 3: "d1 = setitem d0 ''Status'' (map encode_status xs0)"
    by (rule transform_parts)
  from assms(4) obtain xs where xs: "map_of d c = Some xs" and num: "list_all is_number xs"
    by (auto simp: numeric_column_def split: option.splits)
  have lx: "length xs = nrows d" using wf_frame_length [OF assms(2) xs] .
  have wf0: "wf_frame d0" and n0: "nrows d0 = nrows d"
    using impute_shape [OF 1] assms(2) by simp_all
  from impute_dom [OF 1, of c] xs obtain ys where ys: "map_of d0 c = Some ys" by auto
  have ly: "length ys = nrows d" using wf_frame_length [OF wf0 ys] n0 by simp
  have "is_number (ys ! i)" if i: "i < length ys" for i
  proof -
    have i': "i < nrows d" using i ly by simp
    have r: "row_at d i c = Some (xs ! i)" by (simp add: row_at_def xs)
    have "is_number (xs ! i)" using num i' lx by (simp add: list_all_length)
    from impute_number [OF 1 i' r this] assms(3) obtain w where
      "row_at d0 i c = Some w" "is_number w" by (auto simp: wf_state_def)
    then show ?thesis by (simp add: row_at_def ys)
  qed
  then have "list_all is_number ys" by (simp add: list_all_length)
  then show ?thesis using ys assms(5) by (simp add: numeric_column_def 3 map_of_setitem)
qed

lemma transform_dom:
  assumes "transform st d = Inr d1" and "map_of d c \<noteq> None"
  shows "map_of d1 c \<noteq> None"
proof -
  from assms(1) obtain d0 xs0 where
    1: "impute (means_by_country st) (global_medians st) d = Inr d0"
    and 3: "d1 = setitem d0 ''Status'' (map encode_status xs0)"
    by (rule transform_parts)
  show ?thesis using impute_dom [OF 1 assms(2)] by (simp add: 3 map_of_setitem)
qed

lemma impute_col_dom_sub:
  assumes "impute_col s md c d = Inr d'" and "map_of d' c' \<noteq> None"
  shows "map_of d c' \<noteq> None \<or> c' = c"
  using assms by (auto simp: impute_col_def map_of_setitem split: sum.splits if_splits)

lemma impute_dom_sub:
  "impute ms md d = Inr d' \<Longrightarrow> map_of d' c \<noteq> None \<Longrightarrow> map_of d c \<noteq> None \<or> c \<in> fst ` set ms"
proof (induction ms arbitrary: d)
  case Nil
  then show ?case by simp
next
  case (Cons p ms)
  obtain c1 s where p: "p = (c1, s)" by (cases p)
  from Cons.prems(1) obtain d1 where 1: "impute_col s md c1 d = Inr d1" and 2: "impute ms md d1 = Inr d'"
    by (auto simp: p split: sum.splits)
  from Cons.IH [OF 2 Cons.prems(2)] impute_col_dom_sub [OF 1, of c] show ?case
    by (auto simp: p)
qed

lemma transform_dom_sub:
  assumes "transform st d = Inr d1" and "map_of d1 c \<noteq> None"
  shows "map_of d c \<noteq> None \<or> c \<in> fst ` set (means_by_country st) \<or> c = ''Status''"
proof -
  from assms(1) obtain d0 xs0 where
    1: "impute (means_by_country st) (global_medians st) d = Inr d0"
    and 3: "d1 = setitem d0 ''Status'' (map encode_status xs0)"
    by (rule transform_parts)
  show ?thesis
  proof (cases "c = ''Status''")
    case True
    then show ?thesis by simp
  next
    case False
    then have "map_of d0 c \<noteq> None" using assms(2) by (simp add: 3 map_of_setitem)
    from impute_dom_sub [OF 1 this] show ?thesis by blast
  qed
qed

lemma prepare_returns:
  assumes "wf_state st" and "feature_schema d"
    and "''Country'' \<in> set (columns d)" and "''Status'' \<in> set (columns d)"
    and "\<forall>p\<in>set (means_by_country st). fst p \<in> set (columns d)"
  obtains d1 d2 X where "transform st d = Inr d1" and "add_features d1 = Inr d2"
    and "drop_column d2 ''Country'' = Inr X" and "prepare st d = Inr X"
proof -
  have wf: "wf_frame d"
    and num: "numeric_column d ''GDP''" "numeric_column d ''Population''"
      "numeric_column d ''under-five deaths''" "numeric_column d ''infant deaths''"
      "numeric_column d ''Total expenditure''"
    using assms(2) by (simp_all add: feature_schema_def)
  from transform_returns [OF assms(1,3,4,5)] obtain d1 where 1: "transform st d = Inr d1"
    by blast
  have wf1: "wf_frame d1" using transform_shape(1) [OF 1 wf] .
  have "numeric_column d1 ''GDP''" "numeric_column d1 ''Population''"
      "numeric_column d1 ''under-five deaths''" "numeric_column d1 ''infant deaths''"
      "numeric_column d1 ''Total expenditure''"
    using num by (simp_all add: transform_numeric [OF 1 wf assms(1)])
  from add_features_returns [OF this] obtain d2 where 2: "add_features d1 = Inr d2" by blast
  have "map_of d ''Country'' \<noteq> None" using assms(3) by (simp add: columns_map_of)
  from transform_dom [OF 1 this] have "map_of d1 ''Country'' \<noteq> None" .
  then have "map_of d2 ''Country'' \<noteq> None"
    using add_features_shape(4) [OF 2 wf1, of "''Country''"] by simp
  then have "''Country'' \<in> set (columns d2)" by (simp add: columns_map_of)
  then obtain X where 3: "drop_column d2 ''Country'' = Inr X" by (simp add: drop_column_def)
  have "prepare st d = Inr X" by (simp add: prepare_def 1 2 3)
  from that [OF 1 2 3 this] show ?thesis .
qed

lemma example_fit_again: "fit example_refit example_state = (None, example_state2)"
  by code_simp

lemma example_transform2: "transform example_state2 example_test = Inr example_test_out"
  by code_simp

lemma example_prepare: "prepare example_state example_test = Inr example_test_prepared"
  by code_simp

lemma example_submission:
  "submission example_scale example_predict example_state example_test =
     Inr [Number (Fin 6), Number (Fin 7), Number (Fin 8)]"
  by code_simp

section \<open>Claims about transform\<close>

text \<open>
  Claim C1. A missing value in a fitted column is to be filled with the global median when
  the row's country was absent at fit time, and also when the country was present but
  every value of the column was missing for it. The second half fails: for such a country
  \<^verbatim>\<open>groupby(...).mean()\<close> holds the key with the value \<^verbatim>\<open>NaN\<close>, \<^verbatim>\<open>get\<close> finds the key and
  returns that \<^verbatim>\<open>NaN\<close>, and the default is not used. In the example country A has no GDP in
  the fit portion, the global median of GDP is 20, and the missing GDP of the test row of
  country A (row 0) is still missing after \<^verbatim>\<open>transform\<close>.
\<close>

theorem transform_all_missing_country_stays_missing:
  "fit example_train DataPreprocessor = (None, example_state) \<and>
   map_of (means_by_country example_state) ''GDP'' =
     Some [(Str ''A'', Number NaN), (Str ''B'', Number (Fin 15)), (Str ''D'', Number (Fin 40))] \<and>
   map_of (global_medians example_state) ''GDP'' = Some (Number (Fin 20)) \<and>
   row_at example_test 0 ''Country'' = Some (Str ''A'') \<and>
   row_at example_test 0 ''GDP'' = Some (Number NaN) \<and>
   transform example_state example_test = Inr example_test_out \<and>
   row_at example_test_out 0 ''GDP'' = Some (Number NaN)"
  by code_simp

text \<open>
  The other case is as it should be: for a country that the fitted series does not have,
  the missing value becomes the global median.
\<close>

lemma transform_unseen_country_gets_median:
  assumes "transform st d = Inr d'" and "wf_state st"
    and "map_of (means_by_country st) c = Some s" and "c \<noteq> ''Status''"
    and "i < nrows d" and "row_at d i c = Some v" and "isna v"
    and "row_at d i ''Country'' = Some k" and "\<not> isna k" and "map_of s k = None"
  shows "\<exists>med. map_of (global_medians st) c = Some med \<and> row_at d' i c = Some med"
proof -
  have dist: "distinct (map fst (means_by_country st))"
    using assms(2) by (simp add: wf_state_def)
  have mem: "(c, s) \<in> set (means_by_country st)"
    using assms(3) by (rule map_of_SomeD)
  from transform_fill [OF assms(1) dist mem assms(4,5,6,7,8,9)] assms(10)
  show ?thesis by (simp add: series_get_def)
qed

text \<open>
  Claim C2, as stated: a Status value outside the two keys of the mapping makes
  \<^verbatim>\<open>transform\<close> raise. It does not: in the example the Status \<^verbatim>\<open>Other\<close> of row 1 is turned
  into \<^verbatim>\<open>NaN\<close> and the call returns.
\<close>

theorem transform_unknown_status_returns:
  "row_at example_test 1 ''Status'' = Some (Str ''Other'') \<and>
   transform example_state example_test = Inr example_test_out \<and>
   row_at example_test_out 1 ''Status'' = Some (Number NaN)"
  by code_simp

text \<open>
  Claim C2, amended: a Status value other than \<^verbatim>\<open>Developing\<close> and \<^verbatim>\<open>Developed\<close> never makes
  \<^verbatim>\<open>transform\<close> raise. With a fitted object and a frame that holds such a value,
  \<^verbatim>\<open>transform\<close> returns whenever the frame has its Country column and the fitted columns;
  when it raises, the exception is a \<^verbatim>\<open>KeyError\<close> that names the Country column or a fitted
  column, and the frame does not have that column; and when it returns, the value is
  encoded as missing.
\<close>

theorem transform_unknown_status_is_missing:
  assumes "fit dfit DataPreprocessor = (e0, st)" and "wf_frame d" and "i < nrows d"
    and "row_at d i ''Status'' = Some v"
    and "\<not> isna v" and "v \<noteq> Str ''Developing''" and "v \<noteq> Str ''Developed''"
  shows "(''Country'' \<in> set (columns d) \<and>
            (\<forall>p\<in>set (means_by_country st). fst p \<in> set (columns d))
          \<longrightarrow> (\<exists>d'. transform st d = Inr d')) \<and>
         (\<forall>e. transform st d = Inl e \<longrightarrow>
            (\<exists>c. e = KeyError c \<and> c \<notin> set (columns d) \<and>
                 (c = ''Country'' \<or> c \<in> fst ` set (means_by_country st)))) \<and>
         (\<forall>d'. transform st d = Inr d' \<longrightarrow> row_at d' i ''Status'' = Some (Number NaN))"
proof -
  have wfst: "wf_state st" using assms(1) wf_state_init by (rule fit_wf_state)
  have status: "''Status'' \<in> set (columns d)"
    using assms(4) by (auto simp: columns_map_of row_at_def)
  have 1: "''Country'' \<in> set (columns d) \<and>
            (\<forall>p\<in>set (means_by_country st). fst p \<in> set (columns d))
          \<longrightarrow> (\<exists>d'. transform st d = Inr d')"
    using transform_returns [OF wfst _ status] by blast
  have 2: "\<forall>e. transform st d = Inl e \<longrightarrow>
            (\<exists>c. e = KeyError c \<and> c \<notin> set (columns d) \<and>
                 (c = ''Country'' \<or> c \<in> fst ` set (means_by_country st)))"
  proof (intro allI impI)
    fix e assume "transform st d = Inl e"
    from transform_error_absent [OF this wfst _ status] assms(3)
    show "\<exists>c. e = KeyError c \<and> c \<notin> set (columns d) \<and>
                 (c = ''Country'' \<or> c \<in> fst ` set (means_by_country st))"
      by simp
  qed
  have 3: "\<forall>d'. transform st d = Inr d' \<longrightarrow> row_at d' i ''Status'' = Some (Number NaN)"
  proof (intro allI impI)
    fix d' assume t: "transform st d = Inr d'"
    from transform_status_row [OF t assms(2,3)] obtain d1 w where
      1: "impute (means_by_country st) (global_medians st) d = Inr d1"
      and 2: "row_at d1 i ''Status'' = Some w"
      and 3: "row_at d' i ''Status'' = Some (encode_status w)"
      by blast
    have "row_at d1 i ''Status'' = Some v"
      using impute_keep [OF 1 assms(3,4,5)] .
    then have "w = v" using 2 by simp
    then show "row_at d' i ''Status'' = Some (Number NaN)"
      using 3 assms(6,7) by (simp add: encode_status_other)
  qed
  show ?thesis using 1 2 3 by (intro conjI)
qed

theorem transform_unknown_status_is_missing_witness:
  "fit example_train DataPreprocessor = (None, example_state) \<and>
   wf_frame example_test \<and> 1 < nrows example_test \<and>
   row_at example_test 1 ''Status'' = Some (Str ''Other'') \<and>
   \<not> isna (Str ''Other'') \<and> Str ''Other'' \<noteq> Str ''Developing'' \<and>
   Str ''Other'' \<noteq> Str ''Developed'' \<and>
   ''Country'' \<in> set (columns example_test) \<and>
   map fst (means_by_country example_state) = [''GDP''] \<and>
   ''GDP'' \<in> set (columns example_test) \<and>
   transform example_state example_test = Inr example_test_out \<and>
   row_at example_test_out 1 ''Status'' = Some (Number NaN)"
proof -
  have h2: "1 < nrows example_test" by code_simp
  have h3: "row_at example_test 1 ''Status'' = Some (Str ''Other'')" by code_simp
  have h4: "\<not> isna (Str ''Other'')" by simp
  have h5: "Str ''Other'' \<noteq> Str ''Developing''" by simp
  have h6: "Str ''Other'' \<noteq> Str ''Developed''" by simp
  have k: "map fst (means_by_country example_state) = [''GDP'']"
    by (simp add: example_state_def)
  have c1: "''Country'' \<in> set (columns example_test)" by code_simp
  have c2: "''GDP'' \<in> set (columns example_test)" by code_simp
  have pre: "''Country'' \<in> set (columns example_test) \<and>
      (\<forall>p\<in>set (means_by_country example_state). fst p \<in> set (columns example_test))"
    using c1 c2 by (simp add: example_state_def)
  note claim = transform_unknown_status_is_missing [OF example_fit example_test_wf h2 h3 h4 h5 h6]
  from claim pre obtain d' where d': "transform example_state example_test = Inr d'" by blast
  with claim have "row_at d' 1 ''Status'' = Some (Number NaN)" by blast
  moreover have "d' = example_test_out" using d' example_transform by simp
  ultimately show ?thesis
    using example_fit example_test_wf h2 h3 k c1 c2 example_transform by simp
qed

text \<open>
  Claim C3, as stated: \<^verbatim>\<open>transform\<close> is the identity on every column that had no missing
  value at fit time. The Status column of the example fit portion has no missing value,
  and \<^verbatim>\<open>transform\<close> replaces it by its encoding.
\<close>

theorem transform_changes_status_column:
  "fit example_train DataPreprocessor = (None, example_state) \<and>
   ''Status'' \<in> set (columns example_train) \<and>
   ''Status'' \<notin> set (cols_with_na example_train) \<and>
   transform example_state example_test = Inr example_test_out \<and>
   getitem example_test ''Status'' = Inr [Str ''Developing'', Str ''Other'', Str ''Developed''] \<and>
   getitem example_test_out ''Status'' = Inr [Number (Fin 0), Number NaN, Number (Fin 1)] \<and>
   getitem example_test_out ''Status'' \<noteq> getitem example_test ''Status''"
  by code_simp

text \<open>
  Claim C3, amended: for every column other than Status that had no missing value at fit
  time, \<^verbatim>\<open>transform\<close> is the identity on that column, for every input frame on which it
  returns. (It holds as well when \<^verbatim>\<open>fit\<close> ended in an exception.)
\<close>

theorem transform_identity_on_unfitted_columns:
  assumes "fit dfit DataPreprocessor = (e, st)" and "c \<notin> set (cols_with_na dfit)"
    and "c \<noteq> ''Status''" and "transform st d = Inr d'"
  shows "getitem d' c = getitem d c"
proof -
  have "c \<notin> fst ` set (means_by_country st)"
    using fit_keys_fresh [OF assms(1)] assms(2) by blast
  from transform_other [OF assms(4) this assms(3)] show ?thesis
    by (simp add: getitem_def)
qed

theorem transform_identity_on_unfitted_columns_witness:
  "fit example_train DataPreprocessor = (None, example_state) \<and>
   ''Population'' \<notin> set (cols_with_na example_train) \<and>
   ''Population'' \<noteq> ''Status'' \<and>
   transform example_state example_test = Inr example_test_out \<and>
   getitem example_test_out ''Population'' = getitem example_test ''Population''"
proof -
  have h2: "''Population'' \<notin> set (cols_with_na example_train)" by code_simp
  have h3: "''Population'' \<noteq> ''Status''" by simp
  from transform_identity_on_unfitted_columns [OF example_fit h2 h3 example_transform]
  show ?thesis using example_fit h2 example_transform by simp
qed

lemma transform_twice_status:
  assumes "wf_state st" and "wf_frame d"
    and "transform st d = Inr d1" and "transform st d1 = Inr d2"
  shows "\<exists>ys. getitem d2 ''Status'' = Inr ys \<and> length ys = nrows d \<and> list_all isna ys"
proof -
  note wfst = assms(1)
  have wf1: "wf_frame d1" and n1: "nrows d1 = nrows d"
    using transform_shape [OF assms(3,2)] by simp_all
  have wf2: "wf_frame d2" and n2: "nrows d2 = nrows d"
    using transform_shape [OF assms(4) wf1] n1 by simp_all
  from assms(4) obtain d3 xs where 3: "d2 = setitem d3 ''Status'' (map encode_status xs)"
    by (rule transform_parts)
  then have g: "map_of d2 ''Status'' = Some (map encode_status xs)"
    by (simp add: map_of_setitem)
  have len: "length (map encode_status xs) = nrows d"
    using wf_frame_length [OF wf2 g] n2 by simp
  have "isna (map encode_status xs ! i)" if i: "i < nrows d" for i
  proof -
    have i1: "i < nrows d1" using i n1 by simp
    from transform_status_row [OF assms(3,2) i] obtain u where
      u: "row_at d1 i ''Status'' = Some (encode_status u)" by blast
    have num: "is_number (encode_status u)"
      by (simp add: encode_status_def status_codes_def is_number_def)
    from transform_status_row [OF assms(4) wf1 i1] obtain d4 w where
      4: "impute (means_by_country st) (global_medians st) d1 = Inr d4"
      and 5: "row_at d4 i ''Status'' = Some w"
      and 6: "row_at d2 i ''Status'' = Some (encode_status w)"
      by blast
    from impute_number [OF 4 i1 u num] wfst 5 have "is_number w"
      by (auto simp: wf_state_def)
    then have "encode_status w = Number NaN"
      by (cases w) (simp_all add: encode_status_Number is_number_def)
    then show ?thesis using 6 g by (simp add: row_at_def)
  qed
  then have "list_all isna (map encode_status xs)"
    using len by (simp add: list_all_length)
  then show ?thesis using g len by (auto simp: getitem_def)
qed

text \<open>
  Claim C9. With a fitted object, \<^verbatim>\<open>transform\<close> applied to the result of \<^verbatim>\<open>transform\<close>
  returns (given that the frame has its Country column) and leaves no Status value: the
  first call encodes the column into 0, 1 and \<^verbatim>\<open>NaN\<close>, filling brings in floats only, and
  no float is a key of the mapping.
\<close>

theorem transform_twice_status_all_missing:
  assumes "fit dfit DataPreprocessor = (e, st)" and "wf_frame d"
    and "''Country'' \<in> set (columns d)" and "transform st d = Inr d1"
  shows "\<exists>d2 ys. transform st d1 = Inr d2 \<and> getitem d2 ''Status'' = Inr ys \<and>
           length ys = nrows d \<and> list_all isna ys"
proof -
  have wfst: "wf_state st" using assms(1) wf_state_init by (rule fit_wf_state)
  from transform_again_returns [OF wfst assms(2,3,4)] obtain d2 where
    2: "transform st d1 = Inr d2" by blast
  from transform_twice_status [OF wfst assms(2,4) 2] 2 show ?thesis by blast
qed

theorem transform_twice_status_all_missing_witness:
  "fit example_train DataPreprocessor = (None, example_state) \<and> wf_frame example_test \<and>
   ''Country'' \<in> set (columns example_test) \<and>
   transform example_state example_test = Inr example_test_out \<and>
   transform example_state example_test_out = Inr example_test_twice \<and>
   getitem example_test_twice ''Status'' = Inr [Number NaN, Number NaN, Number NaN]"
proof -
  have h3: "''Country'' \<in> set (columns example_test)" by code_simp
  from transform_twice_status_all_missing
    [OF example_fit example_test_wf h3 example_transform]
  obtain d2 ys where "transform example_state example_test_out = Inr d2"
    and "getitem d2 ''Status'' = Inr ys" and "list_all isna ys"
    by blast
  then have "getitem example_test_twice ''Status'' = Inr ys"
    using example_transform_twice by simp
  moreover have "getitem example_test_twice ''Status'' = Inr [Number NaN, Number NaN, Number NaN]"
    by code_simp
  ultimately show ?thesis
    using example_fit example_test_wf h3 example_transform example_transform_twice by simp
qed

section \<open>Claims about fit\<close>

text \<open>
  Claim C6. After \<^verbatim>\<open>fit\<close> on a fresh object has returned, every column with a missing
  value has its entry in both dictionaries. The series of means has exactly the countries
  that occur in the Country column, each with the mean of the specification,
  \<^const>\<open>country_mean\<close> (missing when the country has no value in the column). The other
  entry is a median of the values of the column, \<^const>\<open>is_median\<close>. For a row whose country
  has a defined (not missing) entry in the series, the loop of \<^verbatim>\<open>transform\<close> puts exactly
  that entry in place of a missing value, and so the entry is in the result of \<^verbatim>\<open>transform\<close>
  (for Status, which is encoded after the loop, only the first holds).
\<close>

theorem fit_records_country_mean_used_by_transform:
  assumes "fit dfit DataPreprocessor = (None, st)" and "c \<in> set (cols_with_na dfit)"
  shows "\<exists>ks xs m med fm.
           getitem dfit ''Country'' = Inr ks \<and> getitem dfit c = Inr xs \<and>
           groupby_mean ks xs = Inr m \<and> median xs = Inr med \<and>
           map_of (means_by_country st) c = Some m \<and>
           map_of (global_medians st) c = Some med \<and>
           (\<forall>k. map_of m k =
                  (if k \<in> set ks \<and> \<not> isna k then Some (Number (country_mean ks xs k))
                   else None)) \<and>
           med = Number fm \<and> is_median (present_values xs) fm \<and>
           (\<forall>k w d d1 i v.
              map_of m k = Some w \<and> \<not> isna w \<and>
              impute (means_by_country st) (global_medians st) d = Inr d1 \<and>
              i < nrows d \<and> row_at d i c = Some v \<and> isna v \<and> row_at d i ''Country'' = Some k
              \<longrightarrow> row_at d1 i c = Some w) \<and>
           (\<forall>k w d d' i v.
              map_of m k = Some w \<and> \<not> isna w \<and> c \<noteq> ''Status'' \<and> transform st d = Inr d' \<and>
              i < nrows d \<and> row_at d i c = Some v \<and> isna v \<and> row_at d i ''Country'' = Some k
              \<longrightarrow> row_at d' i c = Some w)"
proof -
  from fit_recorded [OF assms] obtain ks xs m med where
    ks: "getitem dfit ''Country'' = Inr ks" and xs: "getitem dfit c = Inr xs"
    and m: "groupby_mean ks xs = Inr m" and med: "median xs = Inr med"
    and sm: "map_of (means_by_country st) c = Some m"
    and smed: "map_of (global_medians st) c = Some med"
    by blast
  have wfst: "wf_state st" using assms(1) wf_state_init by (rule fit_wf_state)
  then have dist: "distinct (map fst (means_by_country st))" by (simp add: wf_state_def)
  have mem: "(c, m) \<in> set (means_by_country st)" using sm by (rule map_of_SomeD)
  have mean: "\<forall>k. map_of m k =
      (if k \<in> set ks \<and> \<not> isna k then Some (Number (country_mean ks xs k)) else None)"
    using groupby_mean_lookup [OF m] by blast
  from median_is_median [OF med] obtain fm where
    fm: "med = Number fm" "is_median (present_values xs) fm" by blast
  have fill1: "row_at d1 i c = Some w"
    if "map_of m k = Some w"
      and "impute (means_by_country st) (global_medians st) d = Inr d1"
      and "i < nrows d" and "row_at d i c = Some v" and "isna v"
      and "row_at d i ''Country'' = Some k"
    for k w d d1 i v
  proof -
    have "\<not> isna k" using groupby_mean_key [OF m that(1)] .
    from impute_fill [OF that(2) dist mem that(3,4,5,6) this]
    show ?thesis using that(1) by (simp add: series_get_def)
  qed
  have fill: "row_at d' i c = Some w"
    if "map_of m k = Some w" and "c \<noteq> ''Status''" and "transform st d = Inr d'"
      and "i < nrows d" and "row_at d i c = Some v" and "isna v"
      and "row_at d i ''Country'' = Some k"
    for k w d d' i v
  proof -
    have "\<not> isna k" using groupby_mean_key [OF m that(1)] .
    from transform_fill [OF that(3) dist mem that(2,4,5,6,7) this]
    show ?thesis using that(1) by (simp add: series_get_def)
  qed
  have a: "\<forall>k w d d1 i v.
              map_of m k = Some w \<and> \<not> isna w \<and>
              impute (means_by_country st) (global_medians st) d = Inr d1 \<and>
              i < nrows d \<and> row_at d i c = Some v \<and> isna v \<and> row_at d i ''Country'' = Some k
              \<longrightarrow> row_at d1 i c = Some w"
    using fill1 by blast
  have b: "\<forall>k w d d' i v.
              map_of m k = Some w \<and> \<not> isna w \<and> c \<noteq> ''Status'' \<and> transform st d = Inr d' \<and>
              i < nrows d \<and> row_at d i c = Some v \<and> isna v \<and> row_at d i ''Country'' = Some k
              \<longrightarrow> row_at d' i c = Some w"
    using fill by blast
  show ?thesis
    using ks xs m med sm smed mean fm a b by blast
qed

theorem fit_records_country_mean_used_by_transform_witness:
  "fit example_train DataPreprocessor = (None, example_state) \<and>
   ''GDP'' \<in> set (cols_with_na example_train) \<and>
   map_of (means_by_country example_state) ''GDP'' =
     Some [(Str ''A'', Number NaN), (Str ''B'', Number (Fin 15)), (Str ''D'', Number (Fin 40))] \<and>
   country_mean [Str ''A'', Str ''A'', Str ''B'', Str ''B'', Str ''D'']
     [Number NaN, Number NaN, Number (Fin 10), Number (Fin 20), Number (Fin 40)] (Str ''B'')
     = Fin 15 \<and>
   country_mean [Str ''A'', Str ''A'', Str ''B'', Str ''B'', Str ''D'']
     [Number NaN, Number NaN, Number (Fin 10), Number (Fin 20), Number (Fin 40)] (Str ''A'')
     = NaN \<and>
   map_of (global_medians example_state) ''GDP'' = Some (Number (Fin 20)) \<and>
   is_median [Fin 10, Fin 20, Fin 40] (Fin 20) \<and>
   transform example_state example_test = Inr example_test_out \<and> 2 < nrows example_test \<and>
   row_at example_test 2 ''GDP'' = Some (Number NaN) \<and>
   row_at example_test 2 ''Country'' = Some (Str ''B'') \<and>
   row_at example_test_out 2 ''GDP'' = Some (Number (Fin 15))"
proof -
  have h2: "''GDP'' \<in> set (cols_with_na example_train)" by code_simp
  from fit_records_country_mean_used_by_transform [OF example_fit h2]
  obtain ks xs m med fm where
    ks: "getitem example_train ''Country'' = Inr ks" and xs: "getitem example_train ''GDP'' = Inr xs"
    and sm: "map_of (means_by_country example_state) ''GDP'' = Some m"
    and smed: "map_of (global_medians example_state) ''GDP'' = Some med"
    and mean: "\<forall>k. map_of m k =
                  (if k \<in> set ks \<and> \<not> isna k then Some (Number (country_mean ks xs k))
                   else None)"
    and fm: "med = Number fm" "is_median (present_values xs) fm"
    and fill: "\<forall>k w d d' i v.
              map_of m k = Some w \<and> \<not> isna w \<and> ''GDP'' \<noteq> ''Status'' \<and>
              transform example_state d = Inr d' \<and>
              i < nrows d \<and> row_at d i ''GDP'' = Some v \<and> isna v \<and> row_at d i ''Country'' = Some k
              \<longrightarrow> row_at d' i ''GDP'' = Some w"
    by blast
  have m: "m = [(Str ''A'', Number NaN), (Str ''B'', Number (Fin 15)), (Str ''D'', Number (Fin 40))]"
    using sm by (simp add: example_state_def)
  have ksv: "ks = [Str ''A'', Str ''A'', Str ''B'', Str ''B'', Str ''D'']"
    using ks by (simp add: example_train_def getitem_def)
  have xsv: "xs = [Number NaN, Number NaN, Number (Fin 10), Number (Fin 20), Number (Fin 40)]"
    using xs by (simp add: example_train_def getitem_def)
  have look: "map_of m (Str ''B'') = Some (Number (Fin 15))" by (simp add: m)
  have lookA: "map_of m (Str ''A'') = Some (Number NaN)" by (simp add: m)
  have c1: "country_mean ks xs (Str ''B'') = Fin 15"
    using mean [THEN spec, of "Str ''B''"] look by (simp add: ksv)
  have c1a: "country_mean ks xs (Str ''A'') = NaN"
    using mean [THEN spec, of "Str ''A''"] lookA by (simp add: ksv)
  have medv: "fm = Fin 20" using smed fm(1) by (simp add: example_state_def)
  have pv: "present_values xs = [Fin 10, Fin 20, Fin 40]"
    by (simp add: xsv present_values_def)
  have c3: "is_median [Fin 10, Fin 20, Fin 40] (Fin 20)" using fm(2) medv pv by simp
  have n: "2 < nrows example_test" by code_simp
  have r1: "row_at example_test 2 ''GDP'' = Some (Number NaN)" by code_simp
  have r2: "row_at example_test 2 ''Country'' = Some (Str ''B'')" by code_simp
  have c2: "row_at example_test_out 2 ''GDP'' = Some (Number (Fin 15))"
    using fill look example_transform n r1 r2
    by (elim allE [of _ "Str ''B''"] allE [of _ "Number (Fin 15)"] allE [of _ example_test]
          allE [of _ example_test_out] allE [of _ "2::nat"] allE [of _ "Number NaN"]) simp
  have s1: "map_of (means_by_country example_state) ''GDP'' =
     Some [(Str ''A'', Number NaN), (Str ''B'', Number (Fin 15)), (Str ''D'', Number (Fin 40))]"
    using sm m by simp
  have s2: "map_of (global_medians example_state) ''GDP'' = Some (Number (Fin 20))"
    using smed fm(1) medv by simp
  show ?thesis
    using example_fit h2 s1 s2 c1 c1a c3 example_transform n r1 r2 c2
    unfolding ksv xsv by (intro conjI)
qed

text \<open>
  Claim C10. \<^verbatim>\<open>fit\<close> only adds and overwrites entries. When a column had a missing value in
  an earlier fit and has none in a later fit on the same object, both dictionaries still
  hold the entries that the earlier fit computed from the earlier data, and \<^verbatim>\<open>transform\<close>
  fills a missing value of that column from them.
\<close>

theorem fit_keeps_entries_of_earlier_fit:
  assumes "wf_state st0" and "fit d1 st0 = (None, st1)" and "fit d2 st1 = (e2, st2)"
    and "c \<in> set (cols_with_na d1)" and "c \<notin> set (cols_with_na d2)"
  shows "\<exists>ks xs m med.
           getitem d1 ''Country'' = Inr ks \<and> getitem d1 c = Inr xs \<and>
           groupby_mean ks xs = Inr m \<and> median xs = Inr med \<and>
           map_of (means_by_country st2) c = Some m \<and>
           map_of (global_medians st2) c = Some med \<and>
           (\<forall>d d' i v k.
              c \<noteq> ''Status'' \<and> transform st2 d = Inr d' \<and> i < nrows d \<and>
              row_at d i c = Some v \<and> isna v \<and> row_at d i ''Country'' = Some k \<and> \<not> isna k
              \<longrightarrow> row_at d' i c = Some (series_get m k med))"
proof -
  from fit_recorded [OF assms(2,4)] obtain ks xs m med where
    ks: "getitem d1 ''Country'' = Inr ks" and xs: "getitem d1 c = Inr xs"
    and m: "groupby_mean ks xs = Inr m" and med: "median xs = Inr med"
    and sm1: "map_of (means_by_country st1) c = Some m"
    and smed1: "map_of (global_medians st1) c = Some med"
    by blast
  have sm: "map_of (means_by_country st2) c = Some m"
    and smed: "map_of (global_medians st2) c = Some med"
    using fit_other [OF assms(3,5)] sm1 smed1 by simp_all
  have "wf_state st1" using assms(2,1) by (rule fit_wf_state)
  with assms(3) have "wf_state st2" by (rule fit_wf_state)
  then have dist: "distinct (map fst (means_by_country st2))" by (simp add: wf_state_def)
  have mem: "(c, m) \<in> set (means_by_country st2)" using sm by (rule map_of_SomeD)
  have fill: "row_at d' i c = Some (series_get m k med)"
    if "c \<noteq> ''Status''" and "transform st2 d = Inr d'" and "i < nrows d"
      and "row_at d i c = Some v" and "isna v" and "row_at d i ''Country'' = Some k"
      and "\<not> isna k"
    for d d' i v k
    using transform_fill [OF that(2) dist mem that(1,3,4,5,6,7)] smed by simp
  show ?thesis
    using ks xs m med sm smed fill by blast
qed

theorem fit_keeps_entries_of_earlier_fit_witness:
  "wf_state DataPreprocessor \<and>
   fit example_train DataPreprocessor = (None, example_state) \<and>
   fit example_refit example_state = (None, example_state2) \<and>
   ''GDP'' \<in> set (cols_with_na example_train) \<and>
   ''GDP'' \<notin> set (cols_with_na example_refit) \<and>
   map_of (means_by_country example_state2) ''GDP'' =
     Some [(Str ''A'', Number NaN), (Str ''B'', Number (Fin 15)), (Str ''D'', Number (Fin 40))] \<and>
   map_of (global_medians example_state2) ''GDP'' = Some (Number (Fin 20)) \<and>
   transform example_state2 example_test = Inr example_test_out \<and> 2 < nrows example_test \<and>
   row_at example_test 2 ''GDP'' = Some (Number NaN) \<and>
   row_at example_test 2 ''Country'' = Some (Str ''B'') \<and>
   row_at example_test_out 2 ''GDP'' = Some (Number (Fin 15))"
proof -
  have h4: "''GDP'' \<in> set (cols_with_na example_train)" by code_simp
  have h5: "''GDP'' \<notin> set (cols_with_na example_refit)" by code_simp
  from fit_keeps_entries_of_earlier_fit [OF wf_state_init example_fit example_fit_again h4 h5]
  obtain m med where
    sm: "map_of (means_by_country example_state2) ''GDP'' = Some m"
    and smed: "map_of (global_medians example_state2) ''GDP'' = Some med"
    and fill: "\<forall>d d' i v k.
              ''GDP'' \<noteq> ''Status'' \<and> transform example_state2 d = Inr d' \<and> i < nrows d \<and>
              row_at d i ''GDP'' = Some v \<and> isna v \<and> row_at d i ''Country'' = Some k \<and> \<not> isna k
              \<longrightarrow> row_at d' i ''GDP'' = Some (series_get m k med)"
    by blast
  have m: "m = [(Str ''A'', Number NaN), (Str ''B'', Number (Fin 15)), (Str ''D'', Number (Fin 40))]"
    using sm by (simp add: example_state2_def)
  have medv: "med = Number (Fin 20)"
    using smed by (simp add: example_state2_def)
  have n: "2 < nrows example_test" by code_simp
  have r1: "row_at example_test 2 ''GDP'' = Some (Number NaN)" by code_simp
  have r2: "row_at example_test 2 ''Country'' = Some (Str ''B'')" by code_simp
  have "row_at example_test_out 2 ''GDP'' = Some (series_get m (Str ''B'') med)"
    using fill example_transform2 n r1 r2
    by (elim allE [of _ example_test] allE [of _ example_test_out] allE [of _ "2::nat"]
          allE [of _ "Number NaN"] allE [of _ "Str ''B''"]) simp
  then have c2: "row_at example_test_out 2 ''GDP'' = Some (Number (Fin 15))"
    by (simp add: m series_get_def)
  show ?thesis
    using wf_state_init example_fit example_fit_again h4 h5 sm smed m medv example_transform2
      n r1 r2 c2 by simp
qed

section \<open>Claims about the workflow\<close>

text \<open>
  Claim C5. A call of \<^verbatim>\<open>transform\<close> leaves the object as it found it, whatever the frame
  and the object are and whether it returns or raises: it reads the two dictionaries and
  writes neither. So the object that the preprocessing statements leave behind is the one
  that \<^verbatim>\<open>fit\<close> on the fit portion alone produces from a fresh object, whatever the
  validation and test partitions are. When the statements return, \<^verbatim>\<open>fit\<close> has returned
  normally, and each of the three partitions is the result of \<^verbatim>\<open>transform\<close> with that one
  object.
\<close>

theorem preprocess_state_from_fit_portion_only:
  "snd (transform_call d self) = self \<and>
   snd (preprocess X_train X_val test_data) = snd (fit X_train DataPreprocessor) \<and>
   (\<forall>tr va te st. preprocess X_train X_val test_data = (Inr (tr, va, te), st) \<longrightarrow>
      fit X_train DataPreprocessor = (None, st) \<and> transform st X_train = Inr tr \<and>
      transform st X_val = Inr va \<and> transform st test_data = Inr te)"
proof -
  obtain e0 st0 where f: "fit X_train DataPreprocessor = (e0, st0)"
    by (cases "fit X_train DataPreprocessor")
  have "wf_state st0" using f wf_state_init by (rule fit_wf_state)
  then have dist: "distinct (map fst (means_by_country st0))" by (simp add: wf_state_def)
  note call = transform_call_result [OF dist]
  have ft: "fit_transform X_train DataPreprocessor =
      (case e0 of Some e \<Rightarrow> (Inl e, st0) | None \<Rightarrow> (transform st0 X_train, st0))"
    by (simp add: fit_transform_def f call split: option.splits)
  have pp: "preprocess X_train X_val test_data =
      (case e0 of
         Some e \<Rightarrow> (Inl e, st0)
       | None \<Rightarrow>
           (case transform st0 X_train of
              Inl e \<Rightarrow> (Inl e, st0)
            | Inr tr \<Rightarrow>
                (case transform st0 X_val of
                   Inl e \<Rightarrow> (Inl e, st0)
                 | Inr va \<Rightarrow>
                     (case transform st0 test_data of
                        Inl e \<Rightarrow> (Inl e, st0)
                      | Inr te \<Rightarrow> (Inr (tr, va, te), st0)))))"
    by (simp add: preprocess_def ft call split: option.splits sum.splits)
  have 1: "snd (transform_call d self) = self" by (rule transform_call_state)
  have 2: "snd (preprocess X_train X_val test_data) = snd (fit X_train DataPreprocessor)"
    by (simp add: pp f split: option.splits sum.splits)
  have 3: "\<forall>tr va te st. preprocess X_train X_val test_data = (Inr (tr, va, te), st) \<longrightarrow>
      fit X_train DataPreprocessor = (None, st) \<and> transform st X_train = Inr tr \<and>
      transform st X_val = Inr va \<and> transform st test_data = Inr te"
    by (auto simp: pp f split: option.splits sum.splits)
  show ?thesis using 1 2 3 by blast
qed

theorem preprocess_state_from_fit_portion_only_witness:
  "snd (transform_call example_test example_state) = example_state \<and>
   preprocess example_train example_refit example_test =
     (Inr (example_train_out, example_refit_out, example_test_out), example_state) \<and>
   fit example_train DataPreprocessor = (None, example_state) \<and>
   transform example_state example_train = Inr example_train_out \<and>
   transform example_state example_refit = Inr example_refit_out \<and>
   transform example_state example_test = Inr example_test_out"
proof -
  have h: "preprocess example_train example_refit example_test =
     (Inr (example_train_out, example_refit_out, example_test_out), example_state)"
    by code_simp
  from preprocess_state_from_fit_portion_only
    [of example_test example_state example_train example_refit example_test] h
  show ?thesis by simp
qed

text \<open>
  Claim C4, as stated: a value that is still missing just before scaling is a fatal error
  of the pipeline. The notebook has no such check. In the example the Population of row 1
  is zero, the ratio \<^verbatim>\<open>GDP_per_capita\<close> of that row is missing in the frame handed to the
  scaler, no stage has raised, and with a scaler and a learner that accept a missing value
  the run ends with three predictions.
\<close>

theorem undefined_ratio_passed_on_silently:
  "row_at example_test 1 ''Population'' = Some (Number (Fin 0)) \<and>
   prepare example_state example_test = Inr example_test_prepared \<and>
   row_at example_test_prepared 1 ''GDP_per_capita'' = Some (Number NaN) \<and>
   submission example_scale example_predict example_state example_test =
     Inr [Number (Fin 6), Number (Fin 7), Number (Fin 8)]"
  by code_simp

text \<open>
  Claim C4, amended: the workflow makes no check for missing values before scaling, and a
  missing value that is left is no error of the pipeline. For a preprocessor that has been
  fitted and a partition of at least one row with the five source columns numeric, the
  three derived names fresh, and Country, Status and every fitted column present, \<^verbatim>\<open>transform\<close>,
  \<^verbatim>\<open>add_features\<close> and the dropping of Country all return, and the scaler is handed one
  row for each row of the partition. In row \<open>i\<close> each of the three ratios is the quotient
  of the entries that row has after imputation, missing when the denominator is zero; so if
  Population, infant deaths or GDP is zero there, the scaler's row \<open>i\<close> holds a missing
  value. So does it whenever an entry of a column other than Country is still missing
  after imputation. A value of a column other than Status that was present in the
  partition is not changed by imputation, so a zero stays a zero. What becomes of the run
  is then decided by the scaler and the learner alone: the submission is their answer, or
  their error, on exactly those rows, and when the scaler accepts every row the run ends
  with one prediction for each row of the partition.
\<close>

theorem undefined_ratio_reaches_scaler:
  assumes "fit dfit DataPreprocessor = (e0, st)" and "feature_schema d"
    and "''Country'' \<in> set (columns d)" and "''Status'' \<in> set (columns d)"
    and "\<forall>p\<in>set (means_by_country st). fst p \<in> set (columns d)"
    and "0 < nrows d"
  shows "\<exists>d1 X.
           transform st d = Inr d1 \<and> prepare st d = Inr X \<and> length (to_rows X) = nrows d \<and>
           (\<forall>i<nrows d. \<exists>g p u f t.
              row_at d1 i ''GDP'' = Some (Number g) \<and>
              row_at d1 i ''Population'' = Some (Number p) \<and>
              row_at d1 i ''under-five deaths'' = Some (Number u) \<and>
              row_at d1 i ''infant deaths'' = Some (Number f) \<and>
              row_at d1 i ''Total expenditure'' = Some (Number t) \<and>
              row_at X i ''GDP_per_capita'' = Some (Number (spec_ratio g p)) \<and>
              row_at X i ''Child_mortality_ratio'' = Some (Number (spec_ratio u f)) \<and>
              row_at X i ''Health_expenditure_per_GDP'' = Some (Number (spec_ratio t g)) \<and>
              (p = Fin 0 \<or> f = Fin 0 \<or> g = Fin 0 \<longrightarrow> Number NaN \<in> set (to_rows X ! i))) \<and>
           (\<forall>i c. i < nrows d \<and> c \<noteq> ''Country'' \<and> row_at d1 i c = Some (Number NaN) \<longrightarrow>
              row_at X i c = Some (Number NaN) \<and> Number NaN \<in> set (to_rows X ! i)) \<and>
           (\<forall>i c v. i < nrows d \<and> c \<noteq> ''Status'' \<and> row_at d i c = Some v \<and> \<not> isna v \<longrightarrow>
              row_at d1 i c = Some v) \<and>
           submission scale predict st d =
             (case collect (map scale (to_rows X)) of
                Inl e \<Rightarrow> Inl e
              | Inr M \<Rightarrow> Inr (map (\<lambda>r. Number (predict r)) M)) \<and>
           ((\<forall>r\<in>set (to_rows X). \<exists>y. scale r = Inr y) \<longrightarrow>
              (\<exists>preds. submission scale predict st d = Inr preds \<and> length preds = nrows d))"
proof -
  have wfst: "wf_state st" using assms(1) wf_state_init by (rule fit_wf_state)
  have wf: "wf_frame d"
    and fresh: "''GDP_per_capita'' \<notin> set (columns d)" "''Child_mortality_ratio'' \<notin> set (columns d)"
      "''Health_expenditure_per_GDP'' \<notin> set (columns d)"
    using assms(2) by (simp_all add: feature_schema_def)
  from prepare_returns [OF wfst assms(2,3,4,5)] obtain d1 d2 X where
    1: "transform st d = Inr d1" and 2: "add_features d1 = Inr d2"
    and 3: "drop_column d2 ''Country'' = Inr X" and 4: "prepare st d = Inr X"
    by blast
  have wf1: "wf_frame d1" and n1: "nrows d1 = nrows d"
    using transform_shape [OF 1 wf] by simp_all
  have nX: "nrows X = nrows d" using prepare_shape(2) [OF 4 wf] .
  have len: "length (to_rows X) = nrows d" by (simp add: length_to_rows nX)
  have X_row: "row_at X i c = row_at d2 i c" if "c \<noteq> ''Country''" for i c
    using that by (simp add: row_at_def map_of_drop_column [OF 3])
  have ratios: "\<exists>g p u f t.
              row_at d1 i ''GDP'' = Some (Number g) \<and>
              row_at d1 i ''Population'' = Some (Number p) \<and>
              row_at d1 i ''under-five deaths'' = Some (Number u) \<and>
              row_at d1 i ''infant deaths'' = Some (Number f) \<and>
              row_at d1 i ''Total expenditure'' = Some (Number t) \<and>
              row_at X i ''GDP_per_capita'' = Some (Number (spec_ratio g p)) \<and>
              row_at X i ''Child_mortality_ratio'' = Some (Number (spec_ratio u f)) \<and>
              row_at X i ''Health_expenditure_per_GDP'' = Some (Number (spec_ratio t g)) \<and>
              (p = Fin 0 \<or> f = Fin 0 \<or> g = Fin 0 \<longrightarrow> Number NaN \<in> set (to_rows X ! i))"
    if i: "i < nrows d" for i
  proof -
    have i1: "i < nrows d1" and iX: "i < nrows X" using i n1 nX by simp_all
    from add_features_rows [OF 2 wf1 i1] obtain g p u f t where
      src: "row_at d1 i ''GDP'' = Some (Number g)" "row_at d1 i ''Population'' = Some (Number p)"
        "row_at d1 i ''under-five deaths'' = Some (Number u)"
        "row_at d1 i ''infant deaths'' = Some (Number f)"
        "row_at d1 i ''Total expenditure'' = Some (Number t)"
      and out: "row_at d2 i = (row_at d1 i)
             (''GDP_per_capita'' \<mapsto> Number (spec_ratio g p),
              ''Child_mortality_ratio'' \<mapsto> Number (spec_ratio u f),
              ''Health_expenditure_per_GDP'' \<mapsto> Number (spec_ratio t g))"
      by blast
    have r1: "row_at X i ''GDP_per_capita'' = Some (Number (spec_ratio g p))"
      and r2: "row_at X i ''Child_mortality_ratio'' = Some (Number (spec_ratio u f))"
      and r3: "row_at X i ''Health_expenditure_per_GDP'' = Some (Number (spec_ratio t g))"
      by (simp_all add: X_row out)
    have "Number NaN \<in> set (to_rows X ! i)" if "p = Fin 0 \<or> f = Fin 0 \<or> g = Fin 0"
      using that row_at_in_to_rows [OF r1 iX] row_at_in_to_rows [OF r2 iX]
        row_at_in_to_rows [OF r3 iX]
      by (auto simp: spec_ratio_def)
    then show ?thesis using src r1 r2 r3 by blast
  qed
  have residual: "row_at X i c = Some (Number NaN) \<and> Number NaN \<in> set (to_rows X ! i)"
    if "i < nrows d" and "c \<noteq> ''Country''" and r: "row_at d1 i c = Some (Number NaN)" for i c
  proof -
    have "map_of d1 c \<noteq> None" using r by (auto simp: row_at_def)
    from transform_dom_sub [OF 1 this] have "c \<in> set (columns d)"
      using assms(4,5) by (auto simp: columns_map_of)
    then have "c \<notin> {''GDP_per_capita'', ''Child_mortality_ratio'', ''Health_expenditure_per_GDP''}"
      using fresh by auto
    from add_features_shape(4) [OF 2 wf1 this] have "row_at d2 i c = row_at d1 i c"
      by (simp add: row_at_def)
    then have rx: "row_at X i c = Some (Number NaN)" using r that(2) by (simp add: X_row)
    have "i < nrows X" using that(1) nX by simp
    from row_at_in_to_rows [OF rx this] rx show ?thesis by simp
  qed
  have kept: "row_at d1 i c = Some v"
    if "i < nrows d" and "c \<noteq> ''Status''" and "row_at d i c = Some v" and "\<not> isna v" for i c v
    using transform_keep [OF 1 that(1,3,4,2)] .
  have sub: "submission scale predict st d =
             (case collect (map scale (to_rows X)) of
                Inl e \<Rightarrow> Inl e
              | Inr M \<Rightarrow> Inr (map (\<lambda>r. Number (predict r)) M))"
    by (simp add: submission_def 4)
  have a: "\<forall>i<nrows d. \<exists>g p u f t.
              row_at d1 i ''GDP'' = Some (Number g) \<and>
              row_at d1 i ''Population'' = Some (Number p) \<and>
              row_at d1 i ''under-five deaths'' = Some (Number u) \<and>
              row_at d1 i ''infant deaths'' = Some (Number f) \<and>
              row_at d1 i ''Total expenditure'' = Some (Number t) \<and>
              row_at X i ''GDP_per_capita'' = Some (Number (spec_ratio g p)) \<and>
              row_at X i ''Child_mortality_ratio'' = Some (Number (spec_ratio u f)) \<and>
              row_at X i ''Health_expenditure_per_GDP'' = Some (Number (spec_ratio t g)) \<and>
              (p = Fin 0 \<or> f = Fin 0 \<or> g = Fin 0 \<longrightarrow> Number NaN \<in> set (to_rows X ! i))"
    using ratios by blast
  have b: "\<forall>i c. i < nrows d \<and> c \<noteq> ''Country'' \<and> row_at d1 i c = Some (Number NaN) \<longrightarrow>
              row_at X i c = Some (Number NaN) \<and> Number NaN \<in> set (to_rows X ! i)"
    using residual by blast
  have c: "\<forall>i c v. i < nrows d \<and> c \<noteq> ''Status'' \<and> row_at d i c = Some v \<and> \<not> isna v \<longrightarrow>
              row_at d1 i c = Some v"
    using kept by blast
  have run: "(\<forall>r\<in>set (to_rows X). \<exists>y. scale r = Inr y) \<longrightarrow>
              (\<exists>preds. submission scale predict st d = Inr preds \<and> length preds = nrows d)"
  proof
    assume "\<forall>r\<in>set (to_rows X). \<exists>y. scale r = Inr y"
    then obtain M where M: "collect (map scale (to_rows X)) = Inr M"
      using collect_returns by blast
    have "length M = nrows d" using collect_map_length [OF M] len by simp
    then show "\<exists>preds. submission scale predict st d = Inr preds \<and> length preds = nrows d"
      using sub M by simp
  qed
  show ?thesis
    by (intro exI [of _ d1] exI [of _ X] conjI 1 4 len a b c sub run)
qed

theorem undefined_ratio_reaches_scaler_witness:
  "fit example_train DataPreprocessor = (None, example_state) \<and> feature_schema example_test \<and>
   ''Country'' \<in> set (columns example_test) \<and> ''Status'' \<in> set (columns example_test) \<and>
   map fst (means_by_country example_state) = [''GDP''] \<and>
   ''GDP'' \<in> set (columns example_test) \<and> 0 < nrows example_test \<and>
   transform example_state example_test = Inr example_test_out \<and>
   prepare example_state example_test = Inr example_test_prepared \<and>
   row_at example_test_out 2 ''infant deaths'' = Some (Number (Fin 0)) \<and>
   row_at example_test_prepared 2 ''Child_mortality_ratio'' = Some (Number NaN) \<and>
   Number NaN \<in> set (to_rows example_test_prepared ! 2) \<and>
   row_at example_test_out 0 ''GDP'' = Some (Number NaN) \<and>
   row_at example_test_prepared 0 ''GDP'' = Some (Number NaN)"
proof -
  have h2: "feature_schema example_test" by code_simp
  have h3: "''Country'' \<in> set (columns example_test)" by code_simp
  have h4: "''Status'' \<in> set (columns example_test)" by code_simp
  have k: "map fst (means_by_country example_state) = [''GDP'']"
    by (simp add: example_state_def)
  have g: "''GDP'' \<in> set (columns example_test)" by code_simp
  have h5: "\<forall>p\<in>set (means_by_country example_state). fst p \<in> set (columns example_test)"
    using g by (simp add: example_state_def)
  have n: "nrows example_test = 3" by code_simp
  have h6: "0 < nrows example_test" using n by simp
  note claim = undefined_ratio_reaches_scaler [OF example_fit h2 h3 h4 h5 h6, where scale = example_scale
      and predict = example_predict]
  then obtain d1 X where
    1: "transform example_state example_test = Inr d1"
    and 4: "prepare example_state example_test = Inr X"
    and a: "\<forall>i<nrows example_test. \<exists>g p u f t.
              row_at d1 i ''GDP'' = Some (Number g) \<and>
              row_at d1 i ''Population'' = Some (Number p) \<and>
              row_at d1 i ''under-five deaths'' = Some (Number u) \<and>
              row_at d1 i ''infant deaths'' = Some (Number f) \<and>
              row_at d1 i ''Total expenditure'' = Some (Number t) \<and>
              row_at X i ''GDP_per_capita'' = Some (Number (spec_ratio g p)) \<and>
              row_at X i ''Child_mortality_ratio'' = Some (Number (spec_ratio u f)) \<and>
              row_at X i ''Health_expenditure_per_GDP'' = Some (Number (spec_ratio t g)) \<and>
              (p = Fin 0 \<or> f = Fin 0 \<or> g = Fin 0 \<longrightarrow> Number NaN \<in> set (to_rows X ! i))"
    and b: "\<forall>i c. i < nrows example_test \<and> c \<noteq> ''Country'' \<and>
              row_at d1 i c = Some (Number NaN) \<longrightarrow>
              row_at X i c = Some (Number NaN) \<and> Number NaN \<in> set (to_rows X ! i)"
    by (elim exE conjE) (rule that)
  have d1: "d1 = example_test_out" using 1 example_transform by simp
  have X: "X = example_test_prepared" using 4 example_prepare by simp
  have f0: "row_at example_test_out 2 ''infant deaths'' = Some (Number (Fin 0))" by code_simp
  have two: "2 < nrows example_test" using n by simp
  from a have "2 < nrows example_test \<longrightarrow> (\<exists>g p u f t.
              row_at d1 2 ''GDP'' = Some (Number g) \<and>
              row_at d1 2 ''Population'' = Some (Number p) \<and>
              row_at d1 2 ''under-five deaths'' = Some (Number u) \<and>
              row_at d1 2 ''infant deaths'' = Some (Number f) \<and>
              row_at d1 2 ''Total expenditure'' = Some (Number t) \<and>
              row_at X 2 ''GDP_per_capita'' = Some (Number (spec_ratio g p)) \<and>
              row_at X 2 ''Child_mortality_ratio'' = Some (Number (spec_ratio u f)) \<and>
              row_at X 2 ''Health_expenditure_per_GDP'' = Some (Number (spec_ratio t g)) \<and>
              (p = Fin 0 \<or> f = Fin 0 \<or> g = Fin 0 \<longrightarrow> Number NaN \<in> set (to_rows X ! 2)))"
    by (rule spec)
  then have "\<exists>g p u f t.
              row_at d1 2 ''GDP'' = Some (Number g) \<and>
              row_at d1 2 ''Population'' = Some (Number p) \<and>
              row_at d1 2 ''under-five deaths'' = Some (Number u) \<and>
              row_at d1 2 ''infant deaths'' = Some (Number f) \<and>
              row_at d1 2 ''Total expenditure'' = Some (Number t) \<and>
              row_at X 2 ''GDP_per_capita'' = Some (Number (spec_ratio g p)) \<and>
              row_at X 2 ''Child_mortality_ratio'' = Some (Number (spec_ratio u f)) \<and>
              row_at X 2 ''Health_expenditure_per_GDP'' = Some (Number (spec_ratio t g)) \<and>
              (p = Fin 0 \<or> f = Fin 0 \<or> g = Fin 0 \<longrightarrow> Number NaN \<in> set (to_rows X ! 2))"
    by (rule mp) (rule two)
  then obtain g p u f t where
    f: "row_at d1 2 ''infant deaths'' = Some (Number f)"
    and r: "row_at X 2 ''Child_mortality_ratio'' = Some (Number (spec_ratio u f))"
    and z: "p = Fin 0 \<or> f = Fin 0 \<or> g = Fin 0 \<longrightarrow> Number NaN \<in> set (to_rows X ! 2)"
    by (elim exE conjE) (rule that)
  have fz: "f = Fin 0" using f f0 d1 by simp
  have c1: "row_at example_test_prepared 2 ''Child_mortality_ratio'' = Some (Number NaN)"
    using r fz X by (simp add: spec_ratio_def)
  have c2: "Number NaN \<in> set (to_rows example_test_prepared ! 2)" using z fz X by simp
  have g0: "row_at example_test_out 0 ''GDP'' = Some (Number NaN)" by code_simp
  have pre: "0 < nrows example_test \<and> ''GDP'' \<noteq> ''Country'' \<and>
      row_at d1 0 ''GDP'' = Some (Number NaN)"
    using n g0 d1 by simp
  from b [rule_format, of 0 "''GDP''", OF pre]
  have c3: "row_at example_test_prepared 0 ''GDP'' = Some (Number NaN)"
    using X by simp
  show ?thesis
    using example_fit h2 h3 h4 k g h6 example_transform example_prepare f0 c1 c2 g0 c3
    by (intro conjI)
qed

section \<open>Claims about feature synthesis\<close>

text \<open>
  Claim C7. On every frame of the input schema \<^verbatim>\<open>add_features\<close> returns: the result has the
  columns of the input followed by exactly three new ones, the old columns are unchanged,
  and in every row each new entry is the specification's ratio of the two entries of that
  row, \<^term>\<open>spec_ratio\<close>, which is missing and not an infinity when the denominator is
  zero. The rows are treated one by one: on any selection or reordering of the rows of the
  input, the result is the same selection of the rows of the result.
\<close>

theorem add_features_three_ratio_columns:
  assumes "feature_schema df"
  shows "\<exists>out. add_features df = Inr out \<and>
           columns out = columns df @
             [''GDP_per_capita'', ''Child_mortality_ratio'', ''Health_expenditure_per_GDP''] \<and>
           nrows out = nrows df \<and>
           (\<forall>c\<in>set (columns df). getitem out c = getitem df c) \<and>
           (\<forall>i<nrows df. \<exists>g p u f t.
              row_at df i ''GDP'' = Some (Number g) \<and>
              row_at df i ''Population'' = Some (Number p) \<and>
              row_at df i ''under-five deaths'' = Some (Number u) \<and>
              row_at df i ''infant deaths'' = Some (Number f) \<and>
              row_at df i ''Total expenditure'' = Some (Number t) \<and>
              row_at out i ''GDP_per_capita'' = Some (Number (spec_ratio g p)) \<and>
              row_at out i ''Child_mortality_ratio'' = Some (Number (spec_ratio u f)) \<and>
              row_at out i ''Health_expenditure_per_GDP'' = Some (Number (spec_ratio t g)) \<and>
              (p = Fin 0 \<longrightarrow> row_at out i ''GDP_per_capita'' = Some (Number NaN)) \<and>
              (f = Fin 0 \<longrightarrow> row_at out i ''Child_mortality_ratio'' = Some (Number NaN)) \<and>
              (g = Fin 0 \<longrightarrow> row_at out i ''Health_expenditure_per_GDP'' = Some (Number NaN))) \<and>
           (\<forall>is. (\<forall>j\<in>set is. j < nrows df) \<longrightarrow>
              add_features (select_rows is df) = Inr (select_rows is out))"
proof -
  have wf: "wf_frame df"
    and num: "numeric_column df ''GDP''" "numeric_column df ''Population''"
      "numeric_column df ''under-five deaths''" "numeric_column df ''infant deaths''"
      "numeric_column df ''Total expenditure''"
    and fresh: "''GDP_per_capita'' \<notin> set (columns df)" "''Child_mortality_ratio'' \<notin> set (columns df)"
      "''Health_expenditure_per_GDP'' \<notin> set (columns df)"
    using assms by (simp_all add: feature_schema_def)
  from add_features_returns [OF num] obtain out where out: "add_features df = Inr out" by blast
  have cols: "columns out = columns df @
             [''GDP_per_capita'', ''Child_mortality_ratio'', ''Health_expenditure_per_GDP'']"
    using out fresh by (rule add_features_columns)
  have n: "nrows out = nrows df" using add_features_shape(2) [OF out wf] .
  have old: "\<forall>c\<in>set (columns df). getitem out c = getitem df c"
  proof
    fix c assume "c \<in> set (columns df)"
    then have "c \<notin> {''GDP_per_capita'', ''Child_mortality_ratio'', ''Health_expenditure_per_GDP''}"
      using fresh by auto
    from add_features_shape(4) [OF out wf this] show "getitem out c = getitem df c"
      by (simp add: getitem_def)
  qed
  have rows: "\<exists>g p u f t.
              row_at df i ''GDP'' = Some (Number g) \<and>
              row_at df i ''Population'' = Some (Number p) \<and>
              row_at df i ''under-five deaths'' = Some (Number u) \<and>
              row_at df i ''infant deaths'' = Some (Number f) \<and>
              row_at df i ''Total expenditure'' = Some (Number t) \<and>
              row_at out i ''GDP_per_capita'' = Some (Number (spec_ratio g p)) \<and>
              row_at out i ''Child_mortality_ratio'' = Some (Number (spec_ratio u f)) \<and>
              row_at out i ''Health_expenditure_per_GDP'' = Some (Number (spec_ratio t g)) \<and>
              (p = Fin 0 \<longrightarrow> row_at out i ''GDP_per_capita'' = Some (Number NaN)) \<and>
              (f = Fin 0 \<longrightarrow> row_at out i ''Child_mortality_ratio'' = Some (Number NaN)) \<and>
              (g = Fin 0 \<longrightarrow> row_at out i ''Health_expenditure_per_GDP'' = Some (Number NaN))"
    if "i < nrows df" for i
  proof -
    from add_features_rows [OF out wf that] obtain g p u f t where
      "row_at df i ''GDP'' = Some (Number g)" "row_at df i ''Population'' = Some (Number p)"
      "row_at df i ''under-five deaths'' = Some (Number u)"
      "row_at df i ''infant deaths'' = Some (Number f)"
      "row_at df i ''Total expenditure'' = Some (Number t)"
      "row_at out i = (row_at df i)
             (''GDP_per_capita'' \<mapsto> Number (spec_ratio g p),
              ''Child_mortality_ratio'' \<mapsto> Number (spec_ratio u f),
              ''Health_expenditure_per_GDP'' \<mapsto> Number (spec_ratio t g))"
      by blast
    then show ?thesis by (auto simp: spec_ratio_def)
  qed
  have sel: "\<forall>is. (\<forall>j\<in>set is. j < nrows df) \<longrightarrow>
              add_features (select_rows is df) = Inr (select_rows is out)"
    using add_features_select [OF out wf] by blast
  show ?thesis using out cols n old rows sel by blast
qed

theorem add_features_three_ratio_columns_witness:
  "feature_schema example_test_out \<and>
   add_features example_test_out = Inr example_test_features \<and>
   columns example_test_features = columns example_test_out @
     [''GDP_per_capita'', ''Child_mortality_ratio'', ''Health_expenditure_per_GDP''] \<and>
   row_at example_test_out 1 ''Population'' = Some (Number (Fin 0)) \<and>
   row_at example_test_features 1 ''GDP_per_capita'' = Some (Number NaN) \<and>
   add_features (select_rows [2, 0] example_test_out) =
     Inr (select_rows [2, 0] example_test_features)"
proof -
  have h: "feature_schema example_test_out" by code_simp
  have e: "add_features example_test_out = Inr example_test_features" by code_simp
  from add_features_three_ratio_columns [OF h] e
  have cols: "columns example_test_features = columns example_test_out @
       [''GDP_per_capita'', ''Child_mortality_ratio'', ''Health_expenditure_per_GDP'']"
    and rows: "\<forall>i<nrows example_test_out. \<exists>g p u f t.
              row_at example_test_out i ''GDP'' = Some (Number g) \<and>
              row_at example_test_out i ''Population'' = Some (Number p) \<and>
              row_at example_test_out i ''under-five deaths'' = Some (Number u) \<and>
              row_at example_test_out i ''infant deaths'' = Some (Number f) \<and>
              row_at example_test_out i ''Total expenditure'' = Some (Number t) \<and>
              row_at example_test_features i ''GDP_per_capita'' = Some (Number (spec_ratio g p)) \<and>
              row_at example_test_features i ''Child_mortality_ratio'' =
                Some (Number (spec_ratio u f)) \<and>
              row_at example_test_features i ''Health_expenditure_per_GDP'' =
                Some (Number (spec_ratio t g)) \<and>
              (p = Fin 0 \<longrightarrow> row_at example_test_features i ''GDP_per_capita'' = Some (Number NaN)) \<and>
              (f = Fin 0 \<longrightarrow>
                 row_at example_test_features i ''Child_mortality_ratio'' = Some (Number NaN)) \<and>
              (g = Fin 0 \<longrightarrow>
                 row_at example_test_features i ''Health_expenditure_per_GDP'' = Some (Number NaN))"
    and sel: "\<forall>is. (\<forall>j\<in>set is. j < nrows example_test_out) \<longrightarrow>
              add_features (select_rows is example_test_out) =
                Inr (select_rows is example_test_features)"
    by auto
  have n: "nrows example_test_out = 3" by code_simp
  have p: "row_at example_test_out 1 ''Population'' = Some (Number (Fin 0))" by code_simp
  from rows n have "\<exists>g p u f t.
      row_at example_test_out 1 ''Population'' = Some (Number p) \<and>
      (p = Fin 0 \<longrightarrow> row_at example_test_features 1 ''GDP_per_capita'' = Some (Number NaN))"
    by (elim allE [of _ "1::nat"]) auto
  then have r: "row_at example_test_features 1 ''GDP_per_capita'' = Some (Number NaN)"
    using p by auto
  have s: "add_features (select_rows [2, 0] example_test_out) =
      Inr (select_rows [2, 0] example_test_features)"
    using sel n by (elim allE [of _ "[2, 0]"]) simp
  show ?thesis using h e cols p r s by simp
qed


end
